theory Spec2Isabelle
  imports Complex_Main
begin

section \<open>Values, exceptions and responses\<close>

text \<open>
  The handlers of \<^verbatim>\<open>app/routes.py\<close> work on Python floats, on the cells of
  GeoDataFrames and on parsed JSON. Python floats are modelled as \<^typ>\<open>real\<close>: rounding
  and the values NaN and infinity are outside the model. Cells and JSON documents share
  one type of JSON values; a JSON object is an association list in insertion order, as a
  Python \<^verbatim>\<open>dict\<close> is.
\<close>

datatype json =
    JNull
  | JBool bool
  | JInt int
  | JNum real
  | JStr string
  | JArr "json list"
  | JObj "(string \<times> json) list"

text \<open>Python exceptions, with the text that \<^verbatim>\<open>str(e)\<close> gives.\<close>

datatype exn =
    ValueError string
  | TypeError string
  | KeyError string
  | AttributeError string

text \<open>
  What the framework sends back: a \<^verbatim>\<open>JSONResponse\<close> with its status code, an
  \<^verbatim>\<open>HTMLResponse\<close>, or, when a handler lets an exception escape, the framework's
  own answer for an unhandled exception.
\<close>

datatype response =
    JSONResponse nat json
  | HTMLResponse string
  | Unhandled exn

fun status_code :: "response \<Rightarrow> nat" where
  "status_code (JSONResponse s b) = s"
| "status_code (HTMLResponse h) = 200"
| "status_code (Unhandled e) = 500"

definition error_body :: "string \<Rightarrow> json" where
  "error_body msg = JObj [(''error'', JStr msg)]"

fun has_key :: "json \<Rightarrow> string \<Rightarrow> bool" where
  "has_key (JObj kvs) k = (k \<in> set (map fst kvs))"
| "has_key j k = False"

text \<open>
  Effects a handler has besides its response, in the order in which the code performs
  them: calls into the geometry library and, for an upload, the steps on the uploaded
  content.
\<close>

datatype event =
    ToCrs
  | Distance
  | Buffer
  | Within
  | SJoin
  | FileRead
  | JsonLoads
  | ReadProperties
  | ReadGeometryType

section \<open>The geometry library\<close>

text \<open>
  GeoPandas and Shapely are external. The handlers use six of their operations, taken
  here as parameters over an arbitrary type \<open>'g\<close> of geometries:
  \<^item> \<open>lib_to_crs\<close>: \<^verbatim>\<open>to_crs(epsg=27700)\<close> on one geometry given in EPSG:4326;
  \<^item> \<open>lib_distance\<close>: \<^verbatim>\<open>a.distance(b)\<close>;
  \<^item> \<open>lib_point\<close>: \<^verbatim>\<open>Point(x, y)\<close>;
  \<^item> \<open>lib_xy\<close>: the attributes \<^verbatim>\<open>.x\<close> and \<^verbatim>\<open>.y\<close>, which only a point has;
  \<^item> \<open>lib_buffer\<close>: \<^verbatim>\<open>g.buffer(r)\<close>;
  \<^item> \<open>lib_within\<close>: \<^verbatim>\<open>a.within(b)\<close>.
\<close>

record 'g geolib =
  lib_to_crs :: "'g \<Rightarrow> 'g"
  lib_distance :: "'g \<Rightarrow> 'g \<Rightarrow> real"
  lib_point :: "real \<Rightarrow> real \<Rightarrow> 'g"
  lib_xy :: "'g \<Rightarrow> (real \<times> real) option"
  lib_buffer :: "'g \<Rightarrow> real \<Rightarrow> 'g"
  lib_within :: "'g \<Rightarrow> 'g \<Rightarrow> bool"

section \<open>GeoDataFrames and the loaded datasets\<close>

text \<open>
  A GeoDataFrame is the list of its rows in index order; \<^verbatim>\<open>read_file\<close> gives the
  rows the index 0, 1, 2, ..., so a row's label is its position. A row has its geometry
  and its other columns by name. Every row has a geometry: features with a null
  geometry, whose distances GeoPandas gives as NaN, are outside the model.
\<close>

record 'g row =
  geometry :: "'g"
  cells :: "(string \<times> json) list"

type_synonym 'g gdf = "'g row list"

text \<open>The five module-level datasets read by \<^verbatim>\<open>load_geojson\<close> at import time.\<close>

record 'g datasets =
  gp_gdf :: "'g gdf"
  pharmacy_gdf :: "'g gdf"
  bins_gdf :: "'g gdf"
  nature_reserves_gdf :: "'g gdf"
  conservation_areas_gdf :: "'g gdf"

text \<open>\<^verbatim>\<open>gdf.to_crs(epsg=crs)\<close> returns a new frame; the frame it is given is unchanged.\<close>

definition transform_to_bng :: "'g geolib \<Rightarrow> 'g gdf \<Rightarrow> 'g gdf" where
  "transform_to_bng lib gdf = map (\<lambda>r. r\<lparr>geometry := lib_to_crs lib (geometry r)\<rparr>) gdf"

text \<open>
  \<^verbatim>\<open>gdf[name] = values\<close>: an existing column is overwritten in place, a new one is
  appended after the others.
\<close>

fun set_cell :: "string \<Rightarrow> json \<Rightarrow> (string \<times> json) list \<Rightarrow> (string \<times> json) list" where
  "set_cell k v [] = [(k, v)]"
| "set_cell k v ((k', v') # kvs) =
     (if k' = k then (k, v) # kvs else (k', v') # set_cell k v kvs)"

definition set_column :: "string \<Rightarrow> json list \<Rightarrow> 'g gdf \<Rightarrow> 'g gdf" where
  "set_column k vs gdf = map (\<lambda>(r, v). r\<lparr>cells := set_cell k v (cells r)\<rparr>) (zip gdf vs)"

text \<open>
  \<^verbatim>\<open>row[key]\<close> raises \<^verbatim>\<open>KeyError\<close> for a column the frame does not have. A dict
  display reads its keys in order, so the first missing one is the one reported.
\<close>

definition cell :: "'g row \<Rightarrow> string \<Rightarrow> json" where
  "cell r k = (case map_of (cells r) k of Some v \<Rightarrow> v | None \<Rightarrow> JNull)"

fun missing :: "'g row \<Rightarrow> string list \<Rightarrow> string option" where
  "missing r [] = None"
| "missing r (k # ks) = (if k \<in> set (map fst (cells r)) then missing r ks else Some k)"

text \<open>\<^verbatim>\<open>gdf[mask]\<close>: the rows whose mask entry is true, in frame order.\<close>

definition boolean_index :: "'g gdf \<Rightarrow> bool list \<Rightarrow> 'g gdf" where
  "boolean_index gdf flags = map fst (filter snd (zip gdf flags))"

text \<open>
  \<^verbatim>\<open>series.idxmin()\<close>: the label of the first occurrence of the minimum. The scan
  keeps the best position so far and replaces it only by a strictly smaller value.
\<close>

fun idxmin_scan :: "nat \<Rightarrow> real \<Rightarrow> nat \<Rightarrow> real list \<Rightarrow> nat" where
  "idxmin_scan b v i [] = b"
| "idxmin_scan b v i (d # ds) =
     (if d < v then idxmin_scan i d (Suc i) ds else idxmin_scan b v (Suc i) ds)"

definition idxmin :: "real list \<Rightarrow> exn + nat" where
  "idxmin ds =
     (case ds of
        [] \<Rightarrow> Inl (ValueError ''attempt to get argmin of an empty sequence'')
      | d # ds' \<Rightarrow> Inr (idxmin_scan 0 d 1 ds'))"

section \<open>Nearest GP, then nearest pharmacy to that GP\<close>

text \<open>
  The nearest-facility step as the handler performs it twice: write the column
  \<^verbatim>\<open>distance\<close> into the reprojected frame, take \<^verbatim>\<open>idxmin\<close> of that column and
  read the row with that label by \<^verbatim>\<open>.loc\<close>.
\<close>

definition distances :: "'g geolib \<Rightarrow> 'g gdf \<Rightarrow> 'g \<Rightarrow> real list" where
  "distances lib gdf p = map (\<lambda>r. lib_distance lib (geometry r) p) gdf"

definition nearest :: "'g geolib \<Rightarrow> 'g gdf \<Rightarrow> 'g \<Rightarrow> exn + 'g row" where
  "nearest lib gdf p =
     (let ds = distances lib gdf p;
          gdf' = set_column ''distance'' (map JNum ds) gdf
      in case idxmin ds of
           Inl e \<Rightarrow> Inl e
         | Inr i \<Rightarrow> Inr (gdf' ! i))"

definition gp_keys :: "string list" where
  "gp_keys = [''Address_1'', ''Address_1'', ''Address_2'', ''Town'', ''Postcode'',
              ''opening_ho'', ''Saturday'', ''Sunday'', ''distance'']"

definition pharmacy_keys :: "string list" where
  "pharmacy_keys = [''PharmacyName'', ''PharmacyAddress1'', ''PharmacyAddress2'',
                    ''PharmacyAddress3'', ''Postcode'', ''distance'']"

definition nearest_gp_json :: "'g row \<Rightarrow> json" where
  "nearest_gp_json nearest_gp =
     JObj [(''name'', cell nearest_gp ''Address_1''),
           (''address'', JObj [(''address1'', cell nearest_gp ''Address_1''),
                               (''address2'', cell nearest_gp ''Address_2''),
                               (''town'', cell nearest_gp ''Town''),
                               (''postcode'', cell nearest_gp ''Postcode'')]),
           (''opening_hours'', JObj [(''mondayToFriday'', cell nearest_gp ''opening_ho''),
                                     (''saturday'', cell nearest_gp ''Saturday''),
                                     (''sunday'', cell nearest_gp ''Sunday'')]),
           (''distance_meters'', cell nearest_gp ''distance'')]"

definition nearest_pharmacy_json :: "'g row \<Rightarrow> json" where
  "nearest_pharmacy_json nearest_pharmacy_to_gp =
     JObj [(''pharmacyName'', cell nearest_pharmacy_to_gp ''PharmacyName''),
           (''address'', JObj [(''address1'', cell nearest_pharmacy_to_gp ''PharmacyAddress1''),
                               (''address2'', cell nearest_pharmacy_to_gp ''PharmacyAddress2''),
                               (''address3'', cell nearest_pharmacy_to_gp ''PharmacyAddress3''),
                               (''postcode'', cell nearest_pharmacy_to_gp ''Postcode'')]),
           (''distanceInMetres'', cell nearest_pharmacy_to_gp ''distance'')]"

definition nearest_response :: "'g row \<Rightarrow> 'g row \<Rightarrow> response" where
  "nearest_response nearest_gp nearest_pharmacy_to_gp =
     (case missing nearest_gp gp_keys of
        Some k \<Rightarrow> Unhandled (KeyError k)
      | None \<Rightarrow>
          (case missing nearest_pharmacy_to_gp pharmacy_keys of
             Some k \<Rightarrow> Unhandled (KeyError k)
           | None \<Rightarrow>
               JSONResponse 200
                 (JObj [(''nearest_gp'', nearest_gp_json nearest_gp),
                        (''nearest_pharmacy_from_gp'',
                           nearest_pharmacy_json nearest_pharmacy_to_gp)])))"

definition nearest_gp_pharmacy ::
  "'g geolib \<Rightarrow> real \<Rightarrow> real \<Rightarrow> 'g datasets \<Rightarrow> response \<times> event list" where
  "nearest_gp_pharmacy lib latitude longitude ds =
     (if \<not> (- 90 \<le> latitude \<and> latitude \<le> 90) \<or> \<not> (- 180 \<le> longitude \<and> longitude \<le> 180)
      then (JSONResponse 400 (error_body ''Invalid latitude or longitude.''), [])
      else if gp_gdf ds = []
      then (JSONResponse 500 (error_body ''GP data not available''), [])
      else if pharmacy_gdf ds = []
      then (JSONResponse 500 (error_body ''Pharmacy data not available''), [])
      else
        let gp_gdf_bng = transform_to_bng lib (gp_gdf ds);
            pharmacy_gdf_bng = transform_to_bng lib (pharmacy_gdf ds);
            input_point = lib_to_crs lib (lib_point lib longitude latitude)
        in case nearest lib gp_gdf_bng input_point of
             Inl e \<Rightarrow> (Unhandled e, [ToCrs, ToCrs, ToCrs, Distance])
           | Inr nearest_gp \<Rightarrow>
               (case lib_xy lib (geometry nearest_gp) of
                  None \<Rightarrow>
                    (Unhandled (AttributeError ''x''), [ToCrs, ToCrs, ToCrs, Distance])
                | Some (x, y) \<Rightarrow>
                    (case nearest lib pharmacy_gdf_bng (lib_point lib x y) of
                       Inl e \<Rightarrow> (Unhandled e, [ToCrs, ToCrs, ToCrs, Distance, Distance])
                     | Inr nearest_pharmacy_to_gp \<Rightarrow>
                         (nearest_response nearest_gp nearest_pharmacy_to_gp,
                          [ToCrs, ToCrs, ToCrs, Distance, Distance]))))"

section \<open>GPs within a radius\<close>

definition METRES_IN_MILE :: real where
  "METRES_IN_MILE = 160934 / 100"

definition gp_keys_radius :: "string list" where
  "gp_keys_radius = [''Address_1'', ''Address_2'', ''Town'', ''Postcode'',
                     ''opening_ho'', ''Saturday'', ''Sunday'']"

definition gp_json :: "'g row \<Rightarrow> json" where
  "gp_json r =
     JObj [(''address1'', cell r ''Address_1''),
           (''address2'', cell r ''Address_2''),
           (''town'', cell r ''Town''),
           (''postcode'', cell r ''Postcode''),
           (''openingHours'', cell r ''opening_ho''),
           (''saturday'', cell r ''Saturday''),
           (''sunday'', cell r ''Sunday'')]"

text \<open>
  The loop over \<^verbatim>\<open>iterrows()\<close> appends one entry per row; the first row that lacks
  a column ends it with that \<^verbatim>\<open>KeyError\<close>.
\<close>

fun gp_entries :: "'g gdf \<Rightarrow> exn + json list" where
  "gp_entries [] = Inr []"
| "gp_entries (r # rs) =
     (case missing r gp_keys_radius of
        Some k \<Rightarrow> Inl (KeyError k)
      | None \<Rightarrow> (case gp_entries rs of Inl e \<Rightarrow> Inl e | Inr js \<Rightarrow> Inr (gp_json r # js)))"

text \<open>
  The selection of lines 233 to 244: reproject the frame and the centre, convert the
  radius, buffer the centre, and index the reprojected frame by the mask of
  \<^verbatim>\<open>within\<close>.
\<close>

definition centre_buffer :: "'g geolib \<Rightarrow> real \<Rightarrow> real \<Rightarrow> real \<Rightarrow> 'g" where
  "centre_buffer lib latitude longitude radius =
     (let centre_point = lib_to_crs lib (lib_point lib longitude latitude);
          radius_metres = radius * METRES_IN_MILE
      in lib_buffer lib centre_point radius_metres)"

definition gps_within_radius :: "'g geolib \<Rightarrow> real \<Rightarrow> real \<Rightarrow> real \<Rightarrow> 'g gdf \<Rightarrow> 'g gdf" where
  "gps_within_radius lib latitude longitude radius gdf =
     (let gp_gdf_bng = transform_to_bng lib gdf;
          buffer = centre_buffer lib latitude longitude radius
      in boolean_index gp_gdf_bng (map (\<lambda>r. lib_within lib (geometry r) buffer) gp_gdf_bng))"

definition gp_within_radius ::
  "'g geolib \<Rightarrow> real \<Rightarrow> real \<Rightarrow> real \<Rightarrow> 'g datasets \<Rightarrow> response \<times> event list" where
  "gp_within_radius lib latitude longitude radius ds =
     (if \<not> (- 90 \<le> latitude \<and> latitude \<le> 90) \<or> \<not> (- 180 \<le> longitude \<and> longitude \<le> 180)
      then (JSONResponse 400 (error_body ''Invalid latitude or longitude.''), [])
      else if radius \<le> 0
      then (JSONResponse 400 (error_body ''Invalid radius.''), [])
      else if gp_gdf ds = []
      then (JSONResponse 500 (error_body ''GP data not available''), [])
      else
        let found = gps_within_radius lib latitude longitude radius (gp_gdf ds)
        in if found = []
           then (JSONResponse 404 (error_body ''No GPs found within the specified radius''),
                 [ToCrs, ToCrs, Buffer, Within])
           else (case gp_entries found of
                   Inl e \<Rightarrow> (Unhandled e, [ToCrs, ToCrs, Buffer, Within])
                 | Inr js \<Rightarrow>
                     (JSONResponse 200 (JObj [(''gp_data'', JArr js)]),
                      [ToCrs, ToCrs, Buffer, Within])))"

section \<open>Bins in nature reserves and conservation areas\<close>

text \<open>
  \<^verbatim>\<open>gpd.sjoin(left, right, how="inner", predicate="within")\<close>: one result row for
  every pair of a left row and a right row whose geometries satisfy the predicate. Of a
  result row the handler uses only the column \<^verbatim>\<open>index_right\<close>, kept here with the
  label of the left row.
\<close>

definition sjoin :: "'g geolib \<Rightarrow> 'g gdf \<Rightarrow> 'g gdf \<Rightarrow> (nat \<times> nat) list" where
  "sjoin lib left right =
     concat (map (\<lambda>i. map (\<lambda>j. (i, j))
                          (filter (\<lambda>j. lib_within lib (geometry (left ! i)) (geometry (right ! j)))
                                  [0..<length right]))
                 [0..<length left])"

text \<open>
  \<^verbatim>\<open>joined.groupby("index_right").size()\<close>: the labels that occur, in ascending
  order, each with the number of result rows that carry it.
\<close>

definition groupby_size :: "nat list \<Rightarrow> (nat \<times> nat) list" where
  "groupby_size ks = map (\<lambda>k. (k, count_list ks k)) (sort (remdups ks))"

text \<open>
  \<^verbatim>\<open>gdf.index.map(counts).fillna(0).astype(int)\<close>: the count of every label of the
  frame, 0 for a label the grouping does not have.
\<close>

definition bin_counts :: "'g geolib \<Rightarrow> 'g gdf \<Rightarrow> 'g gdf \<Rightarrow> int list" where
  "bin_counts lib bins areas =
     (let joined = sjoin lib bins areas;
          counts = groupby_size (map snd joined)
      in map (\<lambda>j. case map_of counts j of None \<Rightarrow> 0 | Some c \<Rightarrow> int c) [0..<length areas])"

definition with_bin_count :: "'g geolib \<Rightarrow> 'g gdf \<Rightarrow> 'g gdf \<Rightarrow> 'g gdf" where
  "with_bin_count lib bins areas =
     set_column ''bin_count'' (map JInt (bin_counts lib bins areas)) areas"

definition nature_reserve_json :: "'g row \<Rightarrow> json" where
  "nature_reserve_json r =
     JObj [(''type'', JStr ''Nature Reserve''),
           (''name'', cell r ''LV_NAME''),
           (''details'', cell r ''LV_DETAILS''),
           (''description'', cell r ''DESCRIPTION''),
           (''binCount'', cell r ''bin_count'')]"

definition conservation_area_json :: "'g row \<Rightarrow> json" where
  "conservation_area_json r =
     JObj [(''type'', JStr ''Conservation Area''),
           (''name'', cell r ''Name''),
           (''binCount'', cell r ''bin_count'')]"

fun nature_reserve_entries :: "'g gdf \<Rightarrow> exn + json list" where
  "nature_reserve_entries [] = Inr []"
| "nature_reserve_entries (r # rs) =
     (case missing r [''LV_NAME'', ''LV_DETAILS'', ''DESCRIPTION'', ''bin_count''] of
        Some k \<Rightarrow> Inl (KeyError k)
      | None \<Rightarrow>
          (case nature_reserve_entries rs of
             Inl e \<Rightarrow> Inl e
           | Inr js \<Rightarrow> Inr (nature_reserve_json r # js)))"

fun conservation_area_entries :: "'g gdf \<Rightarrow> exn + json list" where
  "conservation_area_entries [] = Inr []"
| "conservation_area_entries (r # rs) =
     (case missing r [''Name'', ''bin_count''] of
        Some k \<Rightarrow> Inl (KeyError k)
      | None \<Rightarrow>
          (case conservation_area_entries rs of
             Inl e \<Rightarrow> Inl e
           | Inr js \<Rightarrow> Inr (conservation_area_json r # js)))"

text \<open>
  The handler assigns the column \<^verbatim>\<open>bin_count\<close> to the two module-level polygon
  frames themselves (lines 310 and 316), before it builds the response: the datasets it
  returns carry the column also when a later \<^verbatim>\<open>KeyError\<close> escapes.
\<close>

definition find_bins :: "'g geolib \<Rightarrow> 'g datasets \<Rightarrow> response \<times> event list \<times> 'g datasets" where
  "find_bins lib ds =
     (if bins_gdf ds = []
      then (JSONResponse 500 (error_body ''Dog or Litter Bin data not available''), [], ds)
      else if nature_reserves_gdf ds = []
      then (JSONResponse 500 (error_body ''Nature Reserve data not available''), [], ds)
      else if conservation_areas_gdf ds = []
      then (JSONResponse 500 (error_body ''Conservation Area data not available''), [], ds)
      else
        let nature' = with_bin_count lib (bins_gdf ds) (nature_reserves_gdf ds);
            conservation' = with_bin_count lib (bins_gdf ds) (conservation_areas_gdf ds);
            ds' = ds\<lparr>nature_reserves_gdf := nature', conservation_areas_gdf := conservation'\<rparr>
        in case nature_reserve_entries nature' of
             Inl e \<Rightarrow> (Unhandled e, [SJoin, SJoin], ds')
           | Inr ns \<Rightarrow>
               (case conservation_area_entries conservation' of
                  Inl e \<Rightarrow> (Unhandled e, [SJoin, SJoin], ds')
                | Inr cs \<Rightarrow>
                    (JSONResponse 200
                       (JObj [(''nature_reserve_bin_count'', JArr ns),
                              (''conservation_area_bin_count'', JArr cs)]),
                     [SJoin, SJoin], ds')))"

section \<open>The upload summary\<close>

text \<open>
  An uploaded file: its declared name and its bytes. \<^verbatim>\<open>json.loads\<close> is external and
  is a parameter of the handler: on the bytes it either raises
  \<^verbatim>\<open>JSONDecodeError\<close> or \<^verbatim>\<open>UnicodeDecodeError\<close>, both subclasses of
  \<^verbatim>\<open>ValueError\<close> (\<open>Inl\<close> with the message), or returns the parsed document. The
  keys of a parsed object are distinct, as those of a \<^verbatim>\<open>dict\<close> are.
\<close>

record upload_file =
  filename :: string
  content :: string

type_synonym json_loads = "string \<Rightarrow> string + json"

definition MAX_UPLOAD_SIZE :: nat where
  "MAX_UPLOAD_SIZE = 50 * 1024 * 1024"

definition endswith :: "string \<Rightarrow> string \<Rightarrow> bool" where
  "endswith s suffix =
     (length suffix \<le> length s \<and> drop (length s - length suffix) s = suffix)"

text \<open>
  The Python operators the handler applies to the parsed document, by the type of the
  value they meet. The wording of the built-in messages is shortened.
\<close>

fun is_substring :: "string \<Rightarrow> string \<Rightarrow> bool" where
  "is_substring k [] = (k = [])"
| "is_substring k (c # s) = (take (length k) (c # s) = k \<or> is_substring k s)"

text \<open>\<^verbatim>\<open>key in x\<close> for a string \<open>key\<close>.\<close>

fun py_contains :: "json \<Rightarrow> string \<Rightarrow> exn + bool" where
  "py_contains (JObj kvs) k = Inr (k \<in> set (map fst kvs))"
| "py_contains (JArr xs) k = Inr (JStr k \<in> set xs)"
| "py_contains (JStr s) k = Inr (is_substring k s)"
| "py_contains JNull k = Inl (TypeError ''argument of type 'NoneType' is not iterable'')"
| "py_contains (JBool b) k = Inl (TypeError ''argument of type 'bool' is not iterable'')"
| "py_contains (JInt i) k = Inl (TypeError ''argument of type 'int' is not iterable'')"
| "py_contains (JNum r) k = Inl (TypeError ''argument of type 'float' is not iterable'')"

text \<open>\<^verbatim>\<open>x[key]\<close> for a string \<open>key\<close>.\<close>

fun py_getitem :: "json \<Rightarrow> string \<Rightarrow> exn + json" where
  "py_getitem (JObj kvs) k =
     (case map_of kvs k of None \<Rightarrow> Inl (KeyError k) | Some v \<Rightarrow> Inr v)"
| "py_getitem (JArr xs) k = Inl (TypeError ''list indices must be integers or slices, not str'')"
| "py_getitem (JStr s) k = Inl (TypeError ''string indices must be integers'')"
| "py_getitem JNull k = Inl (TypeError ''NoneType object is not subscriptable'')"
| "py_getitem (JBool b) k = Inl (TypeError ''bool object is not subscriptable'')"
| "py_getitem (JInt i) k = Inl (TypeError ''int object is not subscriptable'')"
| "py_getitem (JNum r) k = Inl (TypeError ''float object is not subscriptable'')"

text \<open>\<^verbatim>\<open>for feature in x\<close>, and \<^verbatim>\<open>len(x)\<close> as the length of what it yields.\<close>

fun py_iter :: "json \<Rightarrow> exn + json list" where
  "py_iter (JArr xs) = Inr xs"
| "py_iter (JObj kvs) = Inr (map (\<lambda>kv. JStr (fst kv)) kvs)"
| "py_iter (JStr s) = Inr (map (\<lambda>c. JStr [c]) s)"
| "py_iter JNull = Inl (TypeError ''NoneType object is not iterable'')"
| "py_iter (JBool b) = Inl (TypeError ''bool object is not iterable'')"
| "py_iter (JInt i) = Inl (TypeError ''int object is not iterable'')"
| "py_iter (JNum r) = Inl (TypeError ''float object is not iterable'')"

text \<open>\<^verbatim>\<open>x.keys()\<close> and \<^verbatim>\<open>x.get(key, default)\<close>, which only a dict has.\<close>

fun py_keys :: "json \<Rightarrow> exn + string list" where
  "py_keys (JObj kvs) = Inr (map fst kvs)"
| "py_keys j = Inl (AttributeError ''keys'')"

fun py_get :: "json \<Rightarrow> string \<Rightarrow> json \<Rightarrow> exn + json" where
  "py_get (JObj kvs) k d = Inr (case map_of kvs k of None \<Rightarrow> d | Some v \<Rightarrow> v)"
| "py_get j k d = Inl (AttributeError ''get'')"

text \<open>
  Python sets, as lists without repetition in order of first insertion (the order in
  which \<^verbatim>\<open>list(s)\<close> enumerates a set is not fixed by the language). Lists and dicts
  are not hashable; among the others \<^verbatim>\<open>True\<close>, \<^verbatim>\<open>1\<close> and \<^verbatim>\<open>1.0\<close> are equal.
\<close>

fun hashable :: "json \<Rightarrow> bool" where
  "hashable (JArr xs) = False"
| "hashable (JObj kvs) = False"
| "hashable j = True"

fun py_eq :: "json \<Rightarrow> json \<Rightarrow> bool" where
  "py_eq (JBool a) (JBool b) = (a = b)"
| "py_eq (JBool a) (JInt b) = ((if a then 1 else 0) = b)"
| "py_eq (JBool a) (JNum b) = ((if a then 1 else 0) = b)"
| "py_eq (JInt a) (JBool b) = (a = (if b then 1 else 0))"
| "py_eq (JInt a) (JInt b) = (a = b)"
| "py_eq (JInt a) (JNum b) = (real_of_int a = b)"
| "py_eq (JNum a) (JBool b) = (a = (if b then 1 else 0))"
| "py_eq (JNum a) (JInt b) = (a = real_of_int b)"
| "py_eq (JNum a) (JNum b) = (a = b)"
| "py_eq a b = (a = b)"

definition set_add :: "json \<Rightarrow> json list \<Rightarrow> json list" where
  "set_add x xs = (if list_ex (py_eq x) xs then xs else xs @ [x])"

definition set_update :: "string list \<Rightarrow> string list \<Rightarrow> string list" where
  "set_update columns ks = columns @ remdups (filter (\<lambda>k. k \<notin> set columns) ks)"

text \<open>
  The loop of lines 430 and 431: for each feature read \<^verbatim>\<open>feature["properties"]\<close>
  and add its keys to the set of columns. The second component lists one event for
  every feature whose properties are read.
\<close>

fun collect_columns :: "json list \<Rightarrow> string list \<Rightarrow> (exn + string list) \<times> event list" where
  "collect_columns [] columns = (Inr columns, [])"
| "collect_columns (feature # features) columns =
     (case py_getitem feature ''properties'' of
        Inl e \<Rightarrow> (Inl e, [ReadProperties])
      | Inr properties \<Rightarrow>
          (case py_keys properties of
             Inl e \<Rightarrow> (Inl e, [ReadProperties])
           | Inr ks \<Rightarrow>
               (case collect_columns features (set_update columns ks) of
                  (res, evs) \<Rightarrow> (res, ReadProperties # evs))))"

text \<open>The set comprehension of line 438 over \<^verbatim>\<open>feature["geometry"]["type"]\<close>.\<close>

fun collect_geometry_types :: "json list \<Rightarrow> json list \<Rightarrow> (exn + json list) \<times> event list" where
  "collect_geometry_types [] types = (Inr types, [])"
| "collect_geometry_types (feature # features) types =
     (case py_getitem feature ''geometry'' of
        Inl e \<Rightarrow> (Inl e, [ReadGeometryType])
      | Inr g \<Rightarrow>
          (case py_getitem g ''type'' of
             Inl e \<Rightarrow> (Inl e, [ReadGeometryType])
           | Inr t \<Rightarrow>
               if \<not> hashable t then (Inl (TypeError ''unhashable type''), [ReadGeometryType])
               else (case collect_geometry_types features (set_add t types) of
                       (res, evs) \<Rightarrow> (res, ReadGeometryType # evs))))"

text \<open>Lines 426 to 440, entered once \<^verbatim>\<open>"features" in geojson_data\<close> holds.\<close>

definition summarise :: "json \<Rightarrow> (exn + json) \<times> event list" where
  "summarise geojson_data =
     (case py_getitem geojson_data ''features'' of
        Inl e \<Rightarrow> (Inl e, [])
      | Inr features \<Rightarrow>
          (case py_iter features of
             Inl e \<Rightarrow> (Inl e, [])
           | Inr fs \<Rightarrow>
               (case collect_columns fs [] of
                  (Inl e, evs) \<Rightarrow> (Inl e, evs)
                | (Inr columns, evs) \<Rightarrow>
                    (case py_get geojson_data ''crs'' (JStr ''N/A'') of
                       Inl e \<Rightarrow> (Inl e, evs)
                     | Inr crs \<Rightarrow>
                         (case collect_geometry_types fs [] of
                            (Inl e, evs') \<Rightarrow> (Inl e, evs @ evs')
                          | (Inr types, evs') \<Rightarrow>
                              (Inr (JObj [(''rows'', JInt (int (length fs))),
                                          (''columns'', JArr (map JStr columns)),
                                          (''crs'', crs),
                                          (''geometry_types'', JArr types)]),
                               evs @ evs'))))))"

text \<open>
  The two \<^verbatim>\<open>except\<close> clauses of the handler: a \<^verbatim>\<open>ValueError\<close> becomes a 400,
  every other exception a 500, each with \<^verbatim>\<open>str(e)\<close> under the key \<^verbatim>\<open>error\<close>.
\<close>

fun str_of_exn :: "exn \<Rightarrow> string" where
  "str_of_exn (ValueError m) = m"
| "str_of_exn (TypeError m) = m"
| "str_of_exn (KeyError k) = [CHR 0x27] @ k @ [CHR 0x27]"
| "str_of_exn (AttributeError m) = m"

fun except_response :: "exn \<Rightarrow> response" where
  "except_response (ValueError m) = JSONResponse 400 (error_body m)"
| "except_response e = JSONResponse 500 (error_body (str_of_exn e))"

definition upload_geojson :: "json_loads \<Rightarrow> upload_file \<Rightarrow> response \<times> event list" where
  "upload_geojson loads file =
     (if \<not> endswith (filename file) ''.geojson''
      then (except_response (ValueError ''Uploaded file must be a valid GeoJSON file.''), [])
      else
        let file_content = content file
        in if length file_content > MAX_UPLOAD_SIZE
           then (JSONResponse 400 (error_body ''File is too large.''), [FileRead])
           else (case loads file_content of
                   Inl msg \<Rightarrow> (except_response (ValueError msg), [FileRead, JsonLoads])
                 | Inr geojson_data \<Rightarrow>
                     (case py_contains geojson_data ''features'' of
                        Inl e \<Rightarrow> (except_response e, [FileRead, JsonLoads])
                      | Inr False \<Rightarrow>
                          (except_response
                             (ValueError ''Uploaded file is not a valid GeoJSON file.''),
                           [FileRead, JsonLoads])
                      | Inr True \<Rightarrow>
                          (case summarise geojson_data of
                             (Inl e, evs) \<Rightarrow> (except_response e, [FileRead, JsonLoads] @ evs)
                           | (Inr summary, evs) \<Rightarrow>
                               (JSONResponse 200 summary, [FileRead, JsonLoads] @ evs)))))"

section \<open>The remaining routes and the dispatch of a request\<close>

text \<open>The markup of the upload form, without the whitespace that lays it out.\<close>

definition html_content :: string where
  \<open>html_content =
     ''<html><body><h2>Upload a GeoJSON file</h2>'' @
     ''<form action="/upload-geojson/" method="post" enctype="multipart/form-data">'' @
     ''<input type="file" name="file" accept=".geojson" required>'' @
     ''<input type="submit" value="Upload">'' @
     ''</form></body></html>''\<close>

definition serve_upload_form :: response where
  "serve_upload_form = HTMLResponse html_content"

definition read_root :: response where
  "read_root = JSONResponse 200 (JObj [(''message'', JStr ''Hello, world!'')])"

text \<open>
  A request that passed the framework's own parsing of the query parameters and of the
  multipart body. Handling it yields the response, the effects, and the datasets as
  they are afterwards: only \<^verbatim>\<open>find_bins\<close> assigns to a module-level frame, the
  other handlers assign columns only to the frames that \<^verbatim>\<open>to_crs\<close> returned.
\<close>

datatype request =
    NearestGpPharmacy real real
  | GpWithinRadius real real real
  | FindBins
  | ServeUploadForm
  | UploadGeojson upload_file
  | ReadRoot

fun handle ::
  "'g geolib \<Rightarrow> json_loads \<Rightarrow> request \<Rightarrow> 'g datasets \<Rightarrow> response \<times> event list \<times> 'g datasets" where
  "handle lib loads (NearestGpPharmacy latitude longitude) ds =
     (case nearest_gp_pharmacy lib latitude longitude ds of (resp, evs) \<Rightarrow> (resp, evs, ds))"
| "handle lib loads (GpWithinRadius latitude longitude radius) ds =
     (case gp_within_radius lib latitude longitude radius ds of (resp, evs) \<Rightarrow> (resp, evs, ds))"
| "handle lib loads FindBins ds = find_bins lib ds"
| "handle lib loads ServeUploadForm ds = (serve_upload_form, [], ds)"
| "handle lib loads (UploadGeojson file) ds =
     (case upload_geojson loads file of (resp, evs) \<Rightarrow> (resp, evs, ds))"
| "handle lib loads ReadRoot ds = (read_root, [], ds)"

text \<open>
  The module-level datasets live as long as the process: each request is handled on the
  datasets that the requests before it left behind.
\<close>

fun run :: "'g geolib \<Rightarrow> json_loads \<Rightarrow> request list \<Rightarrow> 'g datasets \<Rightarrow> 'g datasets" where
  "run lib loads [] ds = ds"
| "run lib loads (req # reqs) ds = run lib loads reqs (snd (snd (handle lib loads req ds)))"

text \<open>
  A frame without one of its columns, to say that two frames agree on everything else:
  on the rows, their order, their geometries and their other columns.
\<close>

definition without_column :: "string \<Rightarrow> 'g gdf \<Rightarrow> 'g gdf" where
  "without_column k gdf = map (\<lambda>r. r\<lparr>cells := filter (\<lambda>kv. fst kv \<noteq> k) (cells r)\<rparr>) gdf"

section \<open>A geometry library in the plane, for evaluation\<close>

text \<open>
  To run the handlers on concrete data the parameters need an instance. This one has
  points and discs in the plane with the Euclidean distance; a point is within a disc
  when it is in its interior, as Shapely's \<^verbatim>\<open>within\<close> excludes the boundary; the
  buffer of a point is the disc around it; reprojection scales by 1000.
\<close>

datatype shape = Pt real real | Disc real real real

fun shape_to_crs :: "shape \<Rightarrow> shape" where
  "shape_to_crs (Pt x y) = Pt (1000 * x) (1000 * y)"
| "shape_to_crs (Disc x y r) = Disc (1000 * x) (1000 * y) (1000 * r)"

fun centre :: "shape \<Rightarrow> real \<times> real" where
  "centre (Pt x y) = (x, y)"
| "centre (Disc x y r) = (x, y)"

fun extent :: "shape \<Rightarrow> real" where
  "extent (Pt x y) = 0"
| "extent (Disc x y r) = r"

definition shape_distance :: "shape \<Rightarrow> shape \<Rightarrow> real" where
  "shape_distance a b =
     (case (centre a, centre b) of
        ((x, y), (u, v)) \<Rightarrow> max 0 (sqrt ((x - u)\<^sup>2 + (y - v)\<^sup>2) - extent a - extent b))"

fun shape_xy :: "shape \<Rightarrow> (real \<times> real) option" where
  "shape_xy (Pt x y) = Some (x, y)"
| "shape_xy (Disc x y r) = None"

fun shape_buffer :: "shape \<Rightarrow> real \<Rightarrow> shape" where
  "shape_buffer (Pt x y) d = Disc x y d"
| "shape_buffer (Disc x y r) d = Disc x y (r + d)"

fun shape_within :: "shape \<Rightarrow> shape \<Rightarrow> bool" where
  "shape_within (Pt x y) (Disc u v r) = (0 < r \<and> (x - u) * (x - u) + (y - v) * (y - v) < r * r)"
| "shape_within (Pt x y) (Pt u v) = (x = u \<and> y = v)"
| "shape_within (Disc x y s) (Disc u v r) = (0 < s \<and> sqrt ((x - u)\<^sup>2 + (y - v)\<^sup>2) + s \<le> r)"
| "shape_within (Disc x y s) (Pt u v) = False"

definition plane :: "shape geolib" where
  "plane = \<lparr>lib_to_crs = shape_to_crs, lib_distance = shape_distance, lib_point = Pt,
            lib_xy = shape_xy, lib_buffer = shape_buffer, lib_within = shape_within\<rparr>"

text \<open>Surgeries and pharmacies on a line through the origin, in degrees.\<close>

definition surgery :: "string \<Rightarrow> real \<Rightarrow> shape row" where
  "surgery name x =
     \<lparr>geometry = Pt x 0,
      cells = [(''Address_1'', JStr name), (''Address_2'', JNull), (''Town'', JStr ''York''),
               (''Postcode'', JNull), (''opening_ho'', JStr ''8am - 6pm''),
               (''Saturday'', JStr ''Closed''), (''Sunday'', JStr ''Closed'')]\<rparr>"

definition chemist :: "string \<Rightarrow> real \<Rightarrow> shape row" where
  "chemist name x =
     \<lparr>geometry = Pt x 0,
      cells = [(''PharmacyName'', JStr name), (''PharmacyAddress1'', JNull),
               (''PharmacyAddress2'', JNull), (''PharmacyAddress3'', JNull),
               (''Postcode'', JNull)]\<rparr>"

text \<open>
  The rows that the nearest-facility step returns on this data for a query at the
  origin: the reprojected row with its column \<^verbatim>\<open>distance\<close>.
\<close>

definition east_surgery :: "shape row" where
  "east_surgery =
     \<lparr>geometry = Pt 1000 0,
      cells = cells (surgery ''East'' 1) @ [(''distance'', JNum 1000)]\<rparr>"

definition east_end_chemist :: "shape row" where
  "east_end_chemist =
     \<lparr>geometry = Pt 2000 0,
      cells = cells (chemist ''East End'' 2) @ [(''distance'', JNum 1000)]\<rparr>"

text \<open>
  One bin at the origin and two reserves that overlap there; one conservation area away
  from every bin.
\<close>

definition bin :: "real \<Rightarrow> real \<Rightarrow> shape row" where
  "bin x y = \<lparr>geometry = Pt x y, cells = [(''Type'', JStr ''Litter'')]\<rparr>"

definition reserve :: "string \<Rightarrow> shape \<Rightarrow> shape row" where
  "reserve name g =
     \<lparr>geometry = g,
      cells = [(''LV_NAME'', JStr name), (''LV_DETAILS'', JNull), (''DESCRIPTION'', JNull)]\<rparr>"

definition area :: "string \<Rightarrow> shape \<Rightarrow> shape row" where
  "area name g = \<lparr>geometry = g, cells = [(''Name'', JStr name)]\<rparr>"

definition york :: "shape datasets" where
  "york =
     \<lparr>gp_gdf = [surgery ''North'' 2, surgery ''East'' 1, surgery ''West'' (- 1)],
      pharmacy_gdf = [chemist ''West End'' (- 1 / 2), chemist ''East End'' 2],
      bins_gdf = [bin 0 0, bin 9 9],
      nature_reserves_gdf = [reserve ''Moor'' (Disc 0 0 1), reserve ''Fields'' (Disc 1 0 2)],
      conservation_areas_gdf = [area ''Centre'' (Disc 5 5 1)]\<rparr>"

text \<open>
  The sample datasets as they are after a request to \<^verbatim>\<open>/bins-in-nature-areas\<close>:
  each polygon row has the column \<^verbatim>\<open>bin_count\<close> appended.
\<close>

definition counted :: "int \<Rightarrow> shape row \<Rightarrow> shape row" where
  "counted n r = r\<lparr>cells := cells r @ [(''bin_count'', JInt n)]\<rparr>"

definition york_counted :: "shape datasets" where
  "york_counted =
     york\<lparr>nature_reserves_gdf :=
            [counted 1 (reserve ''Moor'' (Disc 0 0 1)), counted 1 (reserve ''Fields'' (Disc 1 0 2))],
          conservation_areas_gdf := [counted 0 (area ''Centre'' (Disc 5 5 1))]\<rparr>"

text \<open>A parser for two documents; every other content is a decoding error.\<close>

definition loads_sample :: json_loads where
  "loads_sample c =
     (if c = ''42'' then Inr (JInt 42)
      else if c = ''{}'' then Inr (JObj [])
      else Inl ''Expecting value: line 1 column 1 (char 0)'')"

section \<open>Frames: columns and the first minimum\<close>

lemma idxmin_scan_spec:
  assumes "b < length pre" "(pre @ ds) ! b = v"
    and "\<forall>j<length pre. v \<le> (pre @ ds) ! j"
    and "\<forall>j<b. v < (pre @ ds) ! j"
    and "i = length pre"
  shows "idxmin_scan b v i ds < length (pre @ ds) \<and>
         (\<forall>j<length (pre @ ds). (pre @ ds) ! idxmin_scan b v i ds \<le> (pre @ ds) ! j) \<and>
         (\<forall>j<idxmin_scan b v i ds. (pre @ ds) ! idxmin_scan b v i ds < (pre @ ds) ! j)"
  using assms
proof (induction ds arbitrary: b v i pre)
  case Nil
  then show ?case by simp
next
  case (Cons d ds)
  have app: "(pre @ [d]) @ ds = pre @ d # ds" by simp
  show ?case
  proof (cases "d < v")
    case True
    have "idxmin_scan i d (Suc i) ds < length ((pre @ [d]) @ ds) \<and>
         (\<forall>j<length ((pre @ [d]) @ ds). ((pre @ [d]) @ ds) ! idxmin_scan i d (Suc i) ds \<le> ((pre @ [d]) @ ds) ! j) \<and>
         (\<forall>j<idxmin_scan i d (Suc i) ds. ((pre @ [d]) @ ds) ! idxmin_scan i d (Suc i) ds < ((pre @ [d]) @ ds) ! j)"
    proof (rule Cons.IH)
      show "i < length (pre @ [d])" using Cons.prems by simp
      show "((pre @ [d]) @ ds) ! i = d" using Cons.prems by (simp add: nth_append)
      show "\<forall>j<length (pre @ [d]). d \<le> ((pre @ [d]) @ ds) ! j"
      proof (intro allI impI)
        fix j assume j: "j < length (pre @ [d])"
        show "d \<le> ((pre @ [d]) @ ds) ! j"
        proof (cases "j < length pre")
          case True
          then have "v \<le> (pre @ d # ds) ! j" using Cons.prems by blast
          then show ?thesis using \<open>d < v\<close> by (simp only: app) 
        next
          case False
          then have "j = length pre" using j by simp
          then show ?thesis by (simp add: nth_append)
        qed
      qed
      show "\<forall>j<i. d < ((pre @ [d]) @ ds) ! j"
      proof (intro allI impI)
        fix j assume "j < i"
        then have "j < length pre" using Cons.prems by simp
        then have "v \<le> (pre @ d # ds) ! j" using Cons.prems by blast
        then show "d < ((pre @ [d]) @ ds) ! j" using \<open>d < v\<close> by (simp only: app)
      qed
      show "Suc i = length (pre @ [d])" using Cons.prems by simp
    qed
    then show ?thesis using True by simp
  next
    case False
    have "idxmin_scan b v (Suc i) ds < length ((pre @ [d]) @ ds) \<and>
         (\<forall>j<length ((pre @ [d]) @ ds). ((pre @ [d]) @ ds) ! idxmin_scan b v (Suc i) ds \<le> ((pre @ [d]) @ ds) ! j) \<and>
         (\<forall>j<idxmin_scan b v (Suc i) ds. ((pre @ [d]) @ ds) ! idxmin_scan b v (Suc i) ds < ((pre @ [d]) @ ds) ! j)"
    proof (rule Cons.IH)
      show "b < length (pre @ [d])" using Cons.prems by simp
      show "((pre @ [d]) @ ds) ! b = v" using Cons.prems by (simp only: app)
      show "\<forall>j<length (pre @ [d]). v \<le> ((pre @ [d]) @ ds) ! j"
      proof (intro allI impI)
        fix j assume j: "j < length (pre @ [d])"
        show "v \<le> ((pre @ [d]) @ ds) ! j"
        proof (cases "j < length pre")
          case True
          then show ?thesis using Cons.prems by (simp only: app)
        next
          case F: False
          then have "j = length pre" using j by simp
          then show ?thesis using False by (simp add: nth_append)
        qed
      qed
      show "\<forall>j<b. v < ((pre @ [d]) @ ds) ! j" using Cons.prems by (simp only: app)
      show "Suc i = length (pre @ [d])" using Cons.prems by simp
    qed
    then show ?thesis using False by simp
  qed
qed

lemma idxmin_first_minimum:
  assumes "ds \<noteq> []"
  shows "\<exists>k. idxmin ds = Inr k \<and> k < length ds \<and> (\<forall>j<length ds. ds ! k \<le> ds ! j) \<and>
             (\<forall>j<k. ds ! k < ds ! j)"
proof -
  obtain d ds' where ds: "ds = d # ds'" using assms by (cases ds) auto
  have "idxmin_scan 0 d 1 ds' < length ([d] @ ds') \<and>
        (\<forall>j<length ([d] @ ds'). ([d] @ ds') ! idxmin_scan 0 d 1 ds' \<le> ([d] @ ds') ! j) \<and>
        (\<forall>j<idxmin_scan 0 d 1 ds'. ([d] @ ds') ! idxmin_scan 0 d 1 ds' < ([d] @ ds') ! j)"
    by (rule idxmin_scan_spec) simp_all
  then show ?thesis by (simp add: ds idxmin_def)
qed

lemma map_of_set_cell_same: "map_of (set_cell k v kvs) k = Some v"
  by (induction kvs) auto

lemma map_of_set_cell_other: "k' \<noteq> k \<Longrightarrow> map_of (set_cell k v kvs) k' = map_of kvs k'"
  by (induction kvs) auto

lemma keys_set_cell: "set (map fst (set_cell k v kvs)) = insert k (set (map fst kvs))"
proof (induction kvs)
  case Nil
  show ?case by simp
next
  case (Cons kv kvs)
  obtain k' v' where kv: "kv = (k', v')" by (cases kv)
  show ?case
  proof (cases "k' = k")
    case True
    then show ?thesis by (simp add: kv)
  next
    case False
    then show ?thesis using Cons.IH by (simp add: kv insert_commute)
  qed
qed

lemma set_cell_twice: "set_cell k v (set_cell k w kvs) = set_cell k v kvs"
  by (induction kvs) auto

lemma length_set_column: "length vs = length gdf \<Longrightarrow> length (set_column k vs gdf) = length gdf"
  by (simp add: set_column_def)

lemma nth_set_column:
  "i < length gdf \<Longrightarrow> length vs = length gdf \<Longrightarrow>
   set_column k vs gdf ! i = (gdf ! i)\<lparr>cells := set_cell k (vs ! i) (cells (gdf ! i))\<rparr>"
  by (simp add: set_column_def)

lemma nearest_first_minimum:
  assumes "gdf \<noteq> []"
  shows "\<exists>i<length gdf.
           nearest lib gdf p =
             Inr ((gdf ! i)\<lparr>cells := set_cell ''distance''
                                   (JNum (lib_distance lib (geometry (gdf ! i)) p))
                                   (cells (gdf ! i))\<rparr>) \<and>
           (\<forall>j<length gdf. lib_distance lib (geometry (gdf ! i)) p
                              \<le> lib_distance lib (geometry (gdf ! j)) p) \<and>
           (\<forall>j<i. lib_distance lib (geometry (gdf ! i)) p
                     < lib_distance lib (geometry (gdf ! j)) p)"
proof -
  let ?ds = "distances lib gdf p"
  have len: "length ?ds = length gdf" by (simp add: distances_def)
  then have "?ds \<noteq> []" using assms by auto
  then obtain k where k: "idxmin ?ds = Inr k" "k < length ?ds"
    "\<forall>j<length ?ds. ?ds ! k \<le> ?ds ! j" "\<forall>j<k. ?ds ! k < ?ds ! j"
    using idxmin_first_minimum by blast
  have nth: "\<And>j. j < length gdf \<Longrightarrow> ?ds ! j = lib_distance lib (geometry (gdf ! j)) p"
    by (simp add: distances_def)
  have kl: "k < length gdf" using k(2) len by simp
  have row: "nearest lib gdf p =
      Inr ((gdf ! k)\<lparr>cells := set_cell ''distance''
                (JNum (lib_distance lib (geometry (gdf ! k)) p)) (cells (gdf ! k))\<rparr>)"
    using k(1) kl len by (simp add: nearest_def Let_def nth_set_column nth)
  have le: "\<forall>j<length gdf. lib_distance lib (geometry (gdf ! k)) p
                              \<le> lib_distance lib (geometry (gdf ! j)) p"
    using k(3) kl len nth by simp
  have lt: "\<forall>j<k. lib_distance lib (geometry (gdf ! k)) p
                     < lib_distance lib (geometry (gdf ! j)) p"
  proof (intro allI impI)
    fix j assume "j < k"
    then have "?ds ! k < ?ds ! j" "j < length gdf" using k(4) kl by auto
    then show "lib_distance lib (geometry (gdf ! k)) p < lib_distance lib (geometry (gdf ! j)) p"
      using nth kl by simp
  qed
  show ?thesis using kl row le lt by blast
qed

section \<open>The nearest facility is the first minimum\<close>

lemma shape_distance_axis: "shape_distance (Pt x 0) (Pt u 0) = \<bar>x - u\<bar>"
  by (simp add: shape_distance_def)

lemmas sample_defs = york_def surgery_def chemist_def bin_def reserve_def area_def
  plane_def transform_to_bng_def

text \<open>
  Claim C5. For a query point and a nonempty frame, both reprojected, the
  nearest-facility step returns a row of the frame, with its distance to the query
  point in the column \<^verbatim>\<open>distance\<close> and its other columns as they were. No row of
  the frame is nearer to the query point, and every row before it in frame order is
  strictly farther: among the rows at the minimum the first is returned.
\<close>

theorem nearest_returns_first_minimum:
  assumes "gdf \<noteq> []"
  shows "\<exists>i r. i < length gdf \<and> nearest lib gdf p = Inr r \<and>
           geometry r = geometry (gdf ! i) \<and>
           cell r ''distance'' = JNum (lib_distance lib (geometry r) p) \<and>
           (\<forall>k. k \<noteq> ''distance'' \<longrightarrow> cell r k = cell (gdf ! i) k) \<and>
           (\<forall>j<length gdf. lib_distance lib (geometry r) p
                              \<le> lib_distance lib (geometry (gdf ! j)) p) \<and>
           (\<forall>j<i. lib_distance lib (geometry r) p
                     < lib_distance lib (geometry (gdf ! j)) p)"
proof -
  obtain i where i: "i < length gdf"
    "nearest lib gdf p =
       Inr ((gdf ! i)\<lparr>cells := set_cell ''distance''
                 (JNum (lib_distance lib (geometry (gdf ! i)) p)) (cells (gdf ! i))\<rparr>)"
    "\<forall>j<length gdf. lib_distance lib (geometry (gdf ! i)) p
                       \<le> lib_distance lib (geometry (gdf ! j)) p"
    "\<forall>j<i. lib_distance lib (geometry (gdf ! i)) p
              < lib_distance lib (geometry (gdf ! j)) p"
    using nearest_first_minimum [OF assms] by blast
  let ?r = "(gdf ! i)\<lparr>cells := set_cell ''distance''
                 (JNum (lib_distance lib (geometry (gdf ! i)) p)) (cells (gdf ! i))\<rparr>"
  have "geometry ?r = geometry (gdf ! i)" by simp
  moreover have "cell ?r ''distance'' = JNum (lib_distance lib (geometry ?r) p)"
    by (simp add: cell_def map_of_set_cell_same)
  moreover have "\<forall>k. k \<noteq> ''distance'' \<longrightarrow> cell ?r k = cell (gdf ! i) k"
    by (simp add: cell_def map_of_set_cell_other)
  ultimately show ?thesis using i by (intro exI [of _ i] exI [of _ ?r]) simp
qed

text \<open>
  On the sample data the surgeries East and West are both 1000 metres from the query
  point; East comes first in the frame and is returned.
\<close>

theorem nearest_returns_first_minimum_witness:
  "transform_to_bng plane (gp_gdf york) \<noteq> [] \<and>
   (\<exists>r. nearest plane (transform_to_bng plane (gp_gdf york)) (Pt 0 0) = Inr r \<and>
        geometry r = Pt 1000 0 \<and> cell r ''Address_1'' = JStr ''East'' \<and>
        cell r ''distance'' = JNum 1000)"
proof -
  let ?g = "transform_to_bng plane (gp_gdf york)"
  have ne: "?g \<noteq> []" by (simp add: sample_defs)
  have d: "map (\<lambda>r. lib_distance plane (geometry r) (Pt 0 0)) ?g = [2000, 1000, 1000]"
    by (simp add: sample_defs shape_distance_axis)
  obtain i r where ir: "i < length ?g" "nearest plane ?g (Pt 0 0) = Inr r"
    "geometry r = geometry (?g ! i)"
    "cell r ''distance'' = JNum (lib_distance plane (geometry r) (Pt 0 0))"
    "\<forall>k. k \<noteq> ''distance'' \<longrightarrow> cell r k = cell (?g ! i) k"
    "\<forall>j<length ?g. lib_distance plane (geometry r) (Pt 0 0)
                      \<le> lib_distance plane (geometry (?g ! j)) (Pt 0 0)"
    "\<forall>j<i. lib_distance plane (geometry r) (Pt 0 0)
              < lib_distance plane (geometry (?g ! j)) (Pt 0 0)"
    using nearest_returns_first_minimum [OF ne, of plane "Pt 0 0"] by blast
  have len: "length ?g = 3" by (simp add: sample_defs)
  have g0: "lib_distance plane (geometry (?g ! 0)) (Pt 0 0) = 2000"
    and g1: "lib_distance plane (geometry (?g ! 1)) (Pt 0 0) = 1000"
    and g2: "lib_distance plane (geometry (?g ! 2)) (Pt 0 0) = 1000"
    by (simp_all add: sample_defs shape_distance_axis)
  from ir(1) len have "i = 0 \<or> i = 1 \<or> i = 2" by auto
  moreover have "i \<noteq> 0"
  proof
    assume "i = 0"
    with ir(3,6) len g0 g1 show False by (auto dest: spec [of _ 1])
  qed
  moreover have "i \<noteq> 2"
  proof
    assume "i = 2"
    with ir(3,7) g1 g2 show False by (auto dest: spec [of _ 1])
  qed
  ultimately have i1: "i = 1" by simp
  have "geometry r = Pt 1000 0" using ir(3) i1 by (simp add: sample_defs)
  moreover have "cell r ''Address_1'' = JStr ''East''"
    using ir(5) i1 by (simp add: sample_defs cell_def)
  moreover have "cell r ''distance'' = JNum 1000"
    using ir(4) \<open>geometry r = Pt 1000 0\<close> by (simp add: plane_def shape_distance_axis)
  ultimately show ?thesis using ne ir(2) by blast
qed

section \<open>Validation of coordinates and radius\<close>

text \<open>
  Claim C7. With a latitude outside \<open>[-90, 90]\<close> or a longitude outside
  \<open>[-180, 180]\<close> both coordinate endpoints answer 400 with the message
  \<^verbatim>\<open>Invalid latitude or longitude.\<close>; with coordinates in range and a radius of at
  most 0 the radius endpoint answers 400 with \<^verbatim>\<open>Invalid radius.\<close>. In both cases
  no call into the geometry library has been made: the list of effects is empty.
\<close>

theorem invalid_input_rejected_before_geometry:
  "((latitude < - 90 \<or> 90 < latitude \<or> longitude < - 180 \<or> 180 < longitude) \<longrightarrow>
      nearest_gp_pharmacy lib latitude longitude ds =
        (JSONResponse 400 (error_body ''Invalid latitude or longitude.''), []) \<and>
      gp_within_radius lib latitude longitude radius ds =
        (JSONResponse 400 (error_body ''Invalid latitude or longitude.''), [])) \<and>
   (- 90 \<le> latitude \<and> latitude \<le> 90 \<and> - 180 \<le> longitude \<and> longitude \<le> 180 \<and> radius \<le> 0 \<longrightarrow>
      gp_within_radius lib latitude longitude radius ds =
        (JSONResponse 400 (error_body ''Invalid radius.''), []))"
  by (auto simp add: nearest_gp_pharmacy_def gp_within_radius_def)

text \<open>
  The requests of the repository's tests: coordinates 1000 and 1000, and radius -5.
\<close>

theorem invalid_input_rejected_before_geometry_witness:
  "((90::real) < 1000 \<and>
    nearest_gp_pharmacy plane 1000 1000 york =
      (JSONResponse 400 (error_body ''Invalid latitude or longitude.''), []) \<and>
    gp_within_radius plane 1000 1000 1 york =
      (JSONResponse 400 (error_body ''Invalid latitude or longitude.''), [])) \<and>
   ((- 90::real) \<le> 53 \<and> (53::real) \<le> 90 \<and> (- 180::real) \<le> - 1 \<and> (- 1::real) \<le> 180 \<and>
    (- 5::real) \<le> 0 \<and>
    gp_within_radius plane 53 (- 1) (- 5) york =
      (JSONResponse 400 (error_body ''Invalid radius.''), []))"
  using invalid_input_rejected_before_geometry [of 1000 1000 plane york 1]
    invalid_input_rejected_before_geometry [of 53 "- 1" plane york "- 5"]
  by simp

section \<open>The upload size cap\<close>

lemma loads_sample_long:
  "2 < length c \<Longrightarrow> loads_sample c = Inl ''Expecting value: line 1 column 1 (char 0)''"
  by (auto simp add: loads_sample_def)

lemma endswith_sample: "endswith ''a.geojson'' ''.geojson''"
  by (simp add: endswith_def)

text \<open>
  Claim C2, as amended. For a file whose name has the extension: when the content is
  longer than 50 MiB the answer is 400 with \<^verbatim>\<open>File is too large.\<close> and the content
  has been read but not parsed; when the content has at most 50 MiB the handler goes
  on to parse it.
\<close>

theorem upload_size_cap:
  assumes "endswith (filename file) ''.geojson''"
  shows "(50 * 1024 * 1024 < length (content file) \<longrightarrow>
            upload_geojson loads file =
              (JSONResponse 400 (error_body ''File is too large.''), [FileRead])) \<and>
         (length (content file) \<le> 50 * 1024 * 1024 \<longrightarrow>
            (\<exists>evs. snd (upload_geojson loads file) = FileRead # JsonLoads # evs))"
  using assms
  by (auto simp add: upload_geojson_def MAX_UPLOAD_SIZE_def Let_def
      split: sum.splits bool.splits prod.splits)

text \<open>
  One byte above the cap is rejected unparsed; a two-byte document is parsed.
\<close>

theorem upload_size_cap_witness:
  "endswith ''a.geojson'' ''.geojson'' \<and>
   upload_geojson loads_sample
     \<lparr>filename = ''a.geojson'', content = replicate (50 * 1024 * 1024 + 1) CHR ''x''\<rparr> =
     (JSONResponse 400 (error_body ''File is too large.''), [FileRead]) \<and>
   (\<exists>evs. snd (upload_geojson loads_sample \<lparr>filename = ''a.geojson'', content = ''{}''\<rparr>) =
            FileRead # JsonLoads # evs)"
  using upload_size_cap [of "\<lparr>filename = ''a.geojson'', content = replicate (50 * 1024 * 1024 + 1) CHR ''x''\<rparr>" loads_sample]
    upload_size_cap [of "\<lparr>filename = ''a.geojson'', content = ''{}''\<rparr>" loads_sample]
    endswith_sample
  by simp

text \<open>
  Claim C2 as stated fails at the boundary. The test of line 408 is
  \<^verbatim>\<open>len(file_content) > MAX_UPLOAD_SIZE\<close>, so a content of exactly 50 MiB is not
  rejected as too large: it is handed to the parser, whose error is then reported.
\<close>

theorem upload_at_cap_is_parsed:
  "endswith ''a.geojson'' ''.geojson'' \<and>
   50 * 1024 * 1024 \<le> length (replicate (50 * 1024 * 1024) CHR ''x'') \<and>
   upload_geojson loads_sample
     \<lparr>filename = ''a.geojson'', content = replicate (50 * 1024 * 1024) CHR ''x''\<rparr> =
     (JSONResponse 400 (error_body ''Expecting value: line 1 column 1 (char 0)''),
      [FileRead, JsonLoads])"
proof -
  have "loads_sample (replicate (50 * 1024 * 1024) CHR ''x'') =
          Inl ''Expecting value: line 1 column 1 (char 0)''"
    by (rule loads_sample_long) simp
  then show ?thesis
    using endswith_sample by (simp add: upload_geojson_def MAX_UPLOAD_SIZE_def)
qed

section \<open>GPs within a radius: the selection\<close>

lemma boolean_index_filter: "boolean_index gdf (map P gdf) = filter P gdf"
  by (induction gdf) (simp_all add: boolean_index_def)

lemma gps_within_radius_filter:
  "gps_within_radius lib latitude longitude radius gdf =
     filter (\<lambda>r. lib_within lib (geometry r)
                    (lib_buffer lib (lib_to_crs lib (lib_point lib longitude latitude))
                       (radius * METRES_IN_MILE)))
            (transform_to_bng lib gdf)"
  by (simp add: gps_within_radius_def centre_buffer_def Let_def boolean_index_filter)

lemma gp_entries_Inr: "gp_entries rs = Inr js \<Longrightarrow> js = map gp_json rs"
  by (induction rs arbitrary: js) (auto split: option.splits sum.splits)

lemma gp_entries_total:
  "\<forall>r\<in>set rs. missing r gp_keys_radius = None \<Longrightarrow> gp_entries rs = Inr (map gp_json rs)"
  by (induction rs) auto

lemma missing_geometry_update: "missing (r\<lparr>geometry := g\<rparr>) ks = missing r ks"
  by (induction ks) simp_all

lemma gp_within_radius_found:
  assumes "- 90 \<le> latitude" "latitude \<le> 90" "- 180 \<le> longitude" "longitude \<le> 180"
    and "0 < radius" and "gp_gdf ds \<noteq> []"
    and "gps_within_radius lib latitude longitude radius (gp_gdf ds) \<noteq> []"
  shows "gp_within_radius lib latitude longitude radius ds =
           (case gp_entries (gps_within_radius lib latitude longitude radius (gp_gdf ds)) of
              Inl e \<Rightarrow> (Unhandled e, [ToCrs, ToCrs, Buffer, Within])
            | Inr js \<Rightarrow> (JSONResponse 200 (JObj [(''gp_data'', JArr js)]),
                         [ToCrs, ToCrs, Buffer, Within]))"
  using assms by (simp add: gp_within_radius_def Let_def)

text \<open>
  Claim C8. For coordinates in range, a positive radius and a nonempty GP frame, the
  rows selected are those rows of the reprojected frame, in frame order, whose geometry
  is within the buffer of the reprojected centre by the radius times 1609.34. A 200
  response lists exactly these rows, and the response is 200 whenever at least one row
  is selected and the frame has the columns the entries read.
\<close>

theorem gp_within_radius_selects_within_buffer:
  assumes "- 90 \<le> latitude" "latitude \<le> 90" "- 180 \<le> longitude" "longitude \<le> 180"
    and "0 < radius" and "gp_gdf ds \<noteq> []"
  shows "gps_within_radius lib latitude longitude radius (gp_gdf ds) =
           filter (\<lambda>r. lib_within lib (geometry r)
                          (lib_buffer lib (lib_to_crs lib (lib_point lib longitude latitude))
                             (radius * 1609.34)))
                  (transform_to_bng lib (gp_gdf ds)) \<and>
         (\<forall>body. fst (gp_within_radius lib latitude longitude radius ds) = JSONResponse 200 body \<longrightarrow>
            body = JObj [(''gp_data'',
                          JArr (map gp_json
                                  (gps_within_radius lib latitude longitude radius (gp_gdf ds))))]) \<and>
         (gps_within_radius lib latitude longitude radius (gp_gdf ds) \<noteq> [] \<and>
          (\<forall>r\<in>set (gp_gdf ds). missing r gp_keys_radius = None) \<longrightarrow>
            gp_within_radius lib latitude longitude radius ds =
              (JSONResponse 200
                 (JObj [(''gp_data'',
                         JArr (map gp_json
                                 (gps_within_radius lib latitude longitude radius (gp_gdf ds))))]),
               [ToCrs, ToCrs, Buffer, Within]))"
proof (intro conjI allI impI)
  show "gps_within_radius lib latitude longitude radius (gp_gdf ds) =
           filter (\<lambda>r. lib_within lib (geometry r)
                          (lib_buffer lib (lib_to_crs lib (lib_point lib longitude latitude))
                             (radius * 1609.34)))
                  (transform_to_bng lib (gp_gdf ds))"
    by (simp add: gps_within_radius_filter METRES_IN_MILE_def)
next
  fix body
  let ?found = "gps_within_radius lib latitude longitude radius (gp_gdf ds)"
  assume ok: "fst (gp_within_radius lib latitude longitude radius ds) = JSONResponse 200 body"
  show "body = JObj [(''gp_data'', JArr (map gp_json ?found))]"
  proof (cases "?found = []")
    case True
    then have "fst (gp_within_radius lib latitude longitude radius ds) =
                 JSONResponse 404 (error_body ''No GPs found within the specified radius'')"
      using assms by (simp add: gp_within_radius_def Let_def)
    with ok show ?thesis by simp
  next
    case False
    note eq = gp_within_radius_found [OF assms False]
    show ?thesis
    proof (cases "gp_entries ?found")
      case (Inl e)
      with eq ok show ?thesis by simp
    next
      case (Inr js)
      then have "js = map gp_json ?found" by (rule gp_entries_Inr)
      with eq ok Inr show ?thesis by simp
    qed
  qed
next
  let ?found = "gps_within_radius lib latitude longitude radius (gp_gdf ds)"
  assume a: "?found \<noteq> [] \<and> (\<forall>r\<in>set (gp_gdf ds). missing r gp_keys_radius = None)"
  have "\<forall>r\<in>set (transform_to_bng lib (gp_gdf ds)). missing r gp_keys_radius = None"
    using a by (simp add: transform_to_bng_def missing_geometry_update)
  then have "\<forall>r\<in>set ?found. missing r gp_keys_radius = None"
    by (simp add: gps_within_radius_filter)
  then have "gp_entries ?found = Inr (map gp_json ?found)"
    by (rule gp_entries_total)
  then show "gp_within_radius lib latitude longitude radius ds =
              (JSONResponse 200 (JObj [(''gp_data'', JArr (map gp_json ?found))]),
               [ToCrs, ToCrs, Buffer, Within])"
    using gp_within_radius_found [OF assms] a by simp
qed

lemma york_bng:
  "transform_to_bng plane (gp_gdf york) =
     [(surgery ''North'' 2)\<lparr>geometry := Pt 2000 0\<rparr>,
      (surgery ''East'' 1)\<lparr>geometry := Pt 1000 0\<rparr>,
      (surgery ''West'' (- 1))\<lparr>geometry := Pt (- 1000) 0\<rparr>]"
  by (simp add: york_def surgery_def plane_def transform_to_bng_def)

lemma buffer_origin:
  "lib_buffer plane (lib_to_crs plane (lib_point plane 0 0)) d = Disc 0 0 d"
  by (simp add: plane_def)

lemma within_origin:
  "lib_within plane (Pt x 0) (Disc 0 0 d) = (0 < d \<and> x * x < d * d)"
  by (simp add: plane_def)

lemma york_within_one_mile:
  "gps_within_radius plane 0 0 1 (gp_gdf york) =
     [(surgery ''East'' 1)\<lparr>geometry := Pt 1000 0\<rparr>, (surgery ''West'' (- 1))\<lparr>geometry := Pt (- 1000) 0\<rparr>]"
  by (simp add: gps_within_radius_filter york_bng buffer_origin within_origin METRES_IN_MILE_def)

lemma york_within_half_mile: "gps_within_radius plane 0 0 (1 / 2) (gp_gdf york) = []"
  by (simp add: gps_within_radius_filter york_bng buffer_origin within_origin METRES_IN_MILE_def)

lemma york_gp_columns: "\<forall>r\<in>set (gp_gdf york). missing r gp_keys_radius = None"
  by (simp add: york_def surgery_def gp_keys_radius_def)

lemma york_gp_nonempty: "gp_gdf york \<noteq> []"
  by (simp add: york_def)

lemma gp_json_geometry_update: "gp_json (r\<lparr>geometry := g\<rparr>) = gp_json r"
  by (simp add: gp_json_def cell_def)

text \<open>
  On the sample data one mile around the origin holds the surgeries East and West, in
  that order, and not North at 2000 metres.
\<close>

theorem gp_within_radius_selects_within_buffer_witness:
  "(- 90::real) \<le> 0 \<and> (0::real) \<le> 90 \<and> (- 180::real) \<le> 0 \<and> (0::real) \<le> 180 \<and> (0::real) < 1 \<and>
   gp_gdf york \<noteq> [] \<and>
   gp_within_radius plane 0 0 1 york =
     (JSONResponse 200
        (JObj [(''gp_data'',
                JArr [gp_json (surgery ''East'' 1), gp_json (surgery ''West'' (- 1))])]),
      [ToCrs, ToCrs, Buffer, Within])"
proof -
  have found: "gps_within_radius plane 0 0 1 (gp_gdf york) \<noteq> []"
    by (simp add: york_within_one_mile)
  have "gp_within_radius plane 0 0 1 york =
          (JSONResponse 200
             (JObj [(''gp_data'',
                     JArr (map gp_json (gps_within_radius plane 0 0 1 (gp_gdf york))))]),
           [ToCrs, ToCrs, Buffer, Within])"
    using gp_within_radius_selects_within_buffer [of 0 0 1 york plane]
      york_gp_nonempty york_gp_columns found
    by simp
  then show ?thesis
    using york_gp_nonempty by (simp add: york_within_one_mile gp_json_geometry_update)
qed

text \<open>
  Claim C9, as amended. For coordinates in range and a positive radius: when the GP
  frame is nonempty and none of its rows is within the buffer the answer is 404 with
  \<^verbatim>\<open>No GPs found within the specified radius\<close>; when the GP frame is empty the
  guard of line 227 answers 500 before any search is made.
\<close>

theorem no_gp_within_radius_is_404:
  assumes "- 90 \<le> latitude" "latitude \<le> 90" "- 180 \<le> longitude" "longitude \<le> 180"
    and "0 < radius"
  shows "(gp_gdf ds \<noteq> [] \<and> gps_within_radius lib latitude longitude radius (gp_gdf ds) = [] \<longrightarrow>
            gp_within_radius lib latitude longitude radius ds =
              (JSONResponse 404 (error_body ''No GPs found within the specified radius''),
               [ToCrs, ToCrs, Buffer, Within])) \<and>
         (gp_gdf ds = [] \<longrightarrow>
            gp_within_radius lib latitude longitude radius ds =
              (JSONResponse 500 (error_body ''GP data not available''), []))"
  using assms by (simp add: gp_within_radius_def Let_def)

text \<open>
  Half a mile around the origin holds no surgery of the sample data.
\<close>

theorem no_gp_within_radius_is_404_witness:
  "(- 90::real) \<le> 0 \<and> (0::real) \<le> 90 \<and> (- 180::real) \<le> 0 \<and> (0::real) \<le> 180 \<and> (0::real) < 1 / 2 \<and>
   gp_gdf york \<noteq> [] \<and> gps_within_radius plane 0 0 (1 / 2) (gp_gdf york) = [] \<and>
   gp_within_radius plane 0 0 (1 / 2) york =
     (JSONResponse 404 (error_body ''No GPs found within the specified radius''),
      [ToCrs, ToCrs, Buffer, Within])"
  using no_gp_within_radius_is_404 [of 0 0 "1 / 2" york plane]
    york_gp_nonempty york_within_half_mile
  by simp

lemma gps_within_radius_Nil: "gps_within_radius lib latitude longitude radius [] = []"
  by (simp add: gps_within_radius_filter transform_to_bng_def)

text \<open>
  Claim C9 as stated fails on an empty GP frame: the request is valid and no row is
  within the buffer, yet the answer is 500, not 404.
\<close>

theorem empty_gp_dataset_is_500:
  "(- 90::real) \<le> 0 \<and> (0::real) \<le> 90 \<and> (- 180::real) \<le> 0 \<and> (0::real) \<le> 180 \<and> (0::real) < 1 \<and>
   gps_within_radius plane 0 0 1 (gp_gdf (york\<lparr>gp_gdf := []\<rparr>)) = [] \<and>
   gp_within_radius plane 0 0 1 (york\<lparr>gp_gdf := []\<rparr>) =
     (JSONResponse 500 (error_body ''GP data not available''), [])"
  by (simp add: gp_within_radius_def gps_within_radius_Nil)

section \<open>Nearest GP and pharmacy: the chain\<close>

lemma missing_None_iff: "missing r ks = None \<longleftrightarrow> set ks \<subseteq> set (map fst (cells r))"
  by (induction ks) auto

lemma nearest_gp_pharmacy_valid:
  assumes "- 90 \<le> latitude" "latitude \<le> 90" "- 180 \<le> longitude" "longitude \<le> 180"
    and "gp_gdf ds \<noteq> []" "pharmacy_gdf ds \<noteq> []"
  shows "nearest_gp_pharmacy lib latitude longitude ds =
     (case nearest lib (transform_to_bng lib (gp_gdf ds))
             (lib_to_crs lib (lib_point lib longitude latitude)) of
        Inl e \<Rightarrow> (Unhandled e, [ToCrs, ToCrs, ToCrs, Distance])
      | Inr nearest_gp \<Rightarrow>
          (case lib_xy lib (geometry nearest_gp) of
             None \<Rightarrow> (Unhandled (AttributeError ''x''), [ToCrs, ToCrs, ToCrs, Distance])
           | Some (x, y) \<Rightarrow>
               (case nearest lib (transform_to_bng lib (pharmacy_gdf ds)) (lib_point lib x y) of
                  Inl e \<Rightarrow> (Unhandled e, [ToCrs, ToCrs, ToCrs, Distance, Distance])
                | Inr nearest_pharmacy_to_gp \<Rightarrow>
                    (nearest_response nearest_gp nearest_pharmacy_to_gp,
                     [ToCrs, ToCrs, ToCrs, Distance, Distance]))))"
  using assms by (simp add: nearest_gp_pharmacy_def Let_def)

lemma nearest_response_200:
  "nearest_response g ph = JSONResponse 200 body \<Longrightarrow>
   body = JObj [(''nearest_gp'', nearest_gp_json g),
                (''nearest_pharmacy_from_gp'', nearest_pharmacy_json ph)]"
  by (simp add: nearest_response_def split: option.splits)

lemma nearest_response_total:
  "missing g gp_keys = None \<Longrightarrow> missing ph pharmacy_keys = None \<Longrightarrow>
   nearest_response g ph =
     JSONResponse 200 (JObj [(''nearest_gp'', nearest_gp_json g),
                             (''nearest_pharmacy_from_gp'', nearest_pharmacy_json ph)])"
  by (simp add: nearest_response_def)

lemma nearest_minimal:
  assumes "nearest lib gdf p = Inr r"
  shows "cell r ''distance'' = JNum (lib_distance lib (geometry r) p) \<and>
         (\<forall>q\<in>set gdf. lib_distance lib (geometry r) p \<le> lib_distance lib (geometry q) p)"
proof -
  have ne: "gdf \<noteq> []"
    using assms by (auto simp add: nearest_def distances_def idxmin_def Let_def)
  obtain i where i: "i < length gdf"
    "nearest lib gdf p =
       Inr ((gdf ! i)\<lparr>cells := set_cell ''distance''
                 (JNum (lib_distance lib (geometry (gdf ! i)) p)) (cells (gdf ! i))\<rparr>)"
    "\<forall>j<length gdf. lib_distance lib (geometry (gdf ! i)) p
                       \<le> lib_distance lib (geometry (gdf ! j)) p"
    using nearest_first_minimum [OF ne] by blast
  have r: "r = (gdf ! i)\<lparr>cells := set_cell ''distance''
                 (JNum (lib_distance lib (geometry (gdf ! i)) p)) (cells (gdf ! i))\<rparr>"
    using assms i(2) by simp
  have "cell r ''distance'' = JNum (lib_distance lib (geometry r) p)"
    by (simp add: r cell_def map_of_set_cell_same)
  moreover have "\<forall>q\<in>set gdf. lib_distance lib (geometry r) p \<le> lib_distance lib (geometry q) p"
  proof
    fix q assume "q \<in> set gdf"
    then obtain j where "j < length gdf" "gdf ! j = q" by (auto simp add: in_set_conv_nth)
    then show "lib_distance lib (geometry r) p \<le> lib_distance lib (geometry q) p"
      using i(3) by (auto simp add: r)
  qed
  ultimately show ?thesis by simp
qed

lemma nearest_row_of:
  assumes "gdf \<noteq> []"
  shows "\<exists>r q. nearest lib gdf p = Inr r \<and> q \<in> set gdf \<and> geometry r = geometry q \<and>
               set (map fst (cells r)) = insert ''distance'' (set (map fst (cells q)))"
proof -
  obtain i where i: "i < length gdf"
    "nearest lib gdf p =
       Inr ((gdf ! i)\<lparr>cells := set_cell ''distance''
                 (JNum (lib_distance lib (geometry (gdf ! i)) p)) (cells (gdf ! i))\<rparr>)"
    using nearest_first_minimum [OF assms] by blast
  let ?r = "(gdf ! i)\<lparr>cells := set_cell ''distance''
                 (JNum (lib_distance lib (geometry (gdf ! i)) p)) (cells (gdf ! i))\<rparr>"
  have "nearest lib gdf p = Inr ?r \<and> gdf ! i \<in> set gdf \<and> geometry ?r = geometry (gdf ! i) \<and>
        set (map fst (cells ?r)) = insert ''distance'' (set (map fst (cells (gdf ! i))))"
    using i by (simp add: keys_set_cell del: set_map)
  then show ?thesis by blast
qed

lemma transform_to_bng_Nil_iff: "transform_to_bng lib gdf = [] \<longleftrightarrow> gdf = []"
  by (simp add: transform_to_bng_def)

lemma in_transform_to_bng:
  "q \<in> set (transform_to_bng lib gdf) \<Longrightarrow>
   \<exists>r\<in>set gdf. geometry q = lib_to_crs lib (geometry r) \<and> cells q = cells r"
  by (auto simp add: transform_to_bng_def)

lemma nearest_gp_pharmacy_200:
  assumes "- 90 \<le> latitude" "latitude \<le> 90" "- 180 \<le> longitude" "longitude \<le> 180"
    and "gp_gdf ds \<noteq> []" "pharmacy_gdf ds \<noteq> []"
    and ok: "fst (nearest_gp_pharmacy lib latitude longitude ds) = JSONResponse 200 body"
  shows "\<exists>g ph x y.
          nearest lib (transform_to_bng lib (gp_gdf ds))
            (lib_to_crs lib (lib_point lib longitude latitude)) = Inr g \<and>
          lib_xy lib (geometry g) = Some (x, y) \<and>
          nearest lib (transform_to_bng lib (pharmacy_gdf ds)) (lib_point lib x y) = Inr ph \<and>
          body = JObj [(''nearest_gp'', nearest_gp_json g),
                       (''nearest_pharmacy_from_gp'', nearest_pharmacy_json ph)] \<and>
          cell ph ''distance'' = JNum (lib_distance lib (geometry ph) (lib_point lib x y)) \<and>
          (\<forall>q\<in>set (transform_to_bng lib (pharmacy_gdf ds)).
             lib_distance lib (geometry ph) (lib_point lib x y)
               \<le> lib_distance lib (geometry q) (lib_point lib x y))"
proof -
  let ?gps = "transform_to_bng lib (gp_gdf ds)"
  let ?phs = "transform_to_bng lib (pharmacy_gdf ds)"
  let ?p = "lib_to_crs lib (lib_point lib longitude latitude)"
  note eq = nearest_gp_pharmacy_valid [OF assms(1-6), of lib]
  show ?thesis
  proof (cases "nearest lib ?gps ?p")
    case (Inl e)
    then have "fst (nearest_gp_pharmacy lib latitude longitude ds) = Unhandled e"
      by (simp add: eq)
    with ok show ?thesis by simp
  next
    case g: (Inr g)
    show ?thesis
    proof (cases "lib_xy lib (geometry g)")
      case None
      then have "fst (nearest_gp_pharmacy lib latitude longitude ds) =
                   Unhandled (AttributeError ''x'')"
        by (simp add: eq g)
      with ok show ?thesis by simp
    next
      case (Some xy)
      obtain x y where xy: "xy = (x, y)" by (cases xy)
      show ?thesis
      proof (cases "nearest lib ?phs (lib_point lib x y)")
        case (Inl e)
        then have "fst (nearest_gp_pharmacy lib latitude longitude ds) = Unhandled e"
          by (simp add: eq g Some xy)
        with ok show ?thesis by simp
      next
        case ph: (Inr ph)
        have "fst (nearest_gp_pharmacy lib latitude longitude ds) = nearest_response g ph"
          by (simp add: eq g Some xy ph)
        then have "nearest_response g ph = JSONResponse 200 body" using ok by simp
        then have body: "body = JObj [(''nearest_gp'', nearest_gp_json g),
                                      (''nearest_pharmacy_from_gp'', nearest_pharmacy_json ph)]"
          by (rule nearest_response_200)
        note m = nearest_minimal [OF ph]
        show ?thesis
          apply (rule exI [of _ g])
          apply (rule exI [of _ ph])
          apply (rule exI [of _ x])
          apply (rule exI [of _ y])
          apply (intro conjI)
               apply (rule g)
              apply (simp add: Some xy)
             apply (rule ph)
            apply (rule body)
           apply (rule conjunct1 [OF m])
          apply (rule conjunct2 [OF m])
          done
      qed
    qed
  qed
qed

lemma nearest_gp_pharmacy_total:
  assumes "- 90 \<le> latitude" "latitude \<le> 90" "- 180 \<le> longitude" "longitude \<le> 180"
    and "gp_gdf ds \<noteq> []" "pharmacy_gdf ds \<noteq> []"
    and gp_schema: "\<forall>r\<in>set (gp_gdf ds).
             lib_xy lib (lib_to_crs lib (geometry r)) \<noteq> None \<and>
             set gp_keys \<subseteq> insert ''distance'' (set (map fst (cells r)))"
    and ph_schema: "\<forall>r\<in>set (pharmacy_gdf ds).
             set pharmacy_keys \<subseteq> insert ''distance'' (set (map fst (cells r)))"
  shows "\<exists>body. nearest_gp_pharmacy lib latitude longitude ds =
                      (JSONResponse 200 body, [ToCrs, ToCrs, ToCrs, Distance, Distance])"
proof -
  let ?gps = "transform_to_bng lib (gp_gdf ds)"
  let ?phs = "transform_to_bng lib (pharmacy_gdf ds)"
  let ?p = "lib_to_crs lib (lib_point lib longitude latitude)"
  note eq = nearest_gp_pharmacy_valid [OF assms(1-6), of lib]
  have "?gps \<noteq> []" using assms(5) by (simp add: transform_to_bng_Nil_iff)
  then obtain g q where g: "nearest lib ?gps ?p = Inr g" "q \<in> set ?gps"
    "geometry g = geometry q"
    "set (map fst (cells g)) = insert ''distance'' (set (map fst (cells q)))"
    using nearest_row_of [of ?gps lib ?p] by blast
  obtain r where r: "r \<in> set (gp_gdf ds)" "geometry q = lib_to_crs lib (geometry r)"
    "cells q = cells r"
    using in_transform_to_bng [OF g(2)] by blast
  have "lib_xy lib (geometry g) \<noteq> None" using gp_schema r(1,2) g(3) by simp
  then obtain x y where xy: "lib_xy lib (geometry g) = Some (x, y)" by auto
  have "set gp_keys \<subseteq> insert ''distance'' (set (map fst (cells r)))"
    using gp_schema r(1) by blast
  then have "set gp_keys \<subseteq> set (map fst (cells g))"
    by (simp only: g(4) r(3))
  then have gk: "missing g gp_keys = None"
    by (simp only: missing_None_iff)
  have "?phs \<noteq> []" using assms(6) by (simp add: transform_to_bng_Nil_iff)
  then obtain ph q' where ph: "nearest lib ?phs (lib_point lib x y) = Inr ph" "q' \<in> set ?phs"
    "set (map fst (cells ph)) = insert ''distance'' (set (map fst (cells q')))"
    using nearest_row_of [of ?phs lib "lib_point lib x y"] by blast
  obtain r' where r': "r' \<in> set (pharmacy_gdf ds)" "cells q' = cells r'"
    using in_transform_to_bng [OF ph(2)] by blast
  have "set pharmacy_keys \<subseteq> insert ''distance'' (set (map fst (cells r')))"
    using ph_schema r'(1) by blast
  then have "set pharmacy_keys \<subseteq> set (map fst (cells ph))"
    by (simp only: ph(3) r'(2))
  then have pk: "missing ph pharmacy_keys = None"
    by (simp only: missing_None_iff)
  have "nearest_gp_pharmacy lib latitude longitude ds =
          (JSONResponse 200 (JObj [(''nearest_gp'', nearest_gp_json g),
                                   (''nearest_pharmacy_from_gp'', nearest_pharmacy_json ph)]),
           [ToCrs, ToCrs, ToCrs, Distance, Distance])"
    by (simp add: eq g(1) xy ph(1) nearest_response_total [OF gk pk])
  then show ?thesis by (rule exI)
qed

text \<open>
  Claim C4. For coordinates in range and nonempty GP and pharmacy frames: whenever the
  endpoint answers 200, the GP it reports is the nearest row of the reprojected GP
  frame to the reprojected query point, and the pharmacy it reports is the nearest row
  of the reprojected pharmacy frame to the point built from the coordinates of that
  GP's geometry; the distance reported for the pharmacy is its distance to that point,
  and no pharmacy is nearer to it. The answer is 200 whenever the GP geometries are
  points and both frames have the columns that the response reads.
\<close>

theorem nearest_pharmacy_is_nearest_to_returned_gp:
  assumes "- 90 \<le> latitude" "latitude \<le> 90" "- 180 \<le> longitude" "longitude \<le> 180"
    and "gp_gdf ds \<noteq> []" "pharmacy_gdf ds \<noteq> []"
  shows "(\<forall>body. fst (nearest_gp_pharmacy lib latitude longitude ds) = JSONResponse 200 body \<longrightarrow>
           (\<exists>g ph x y.
              nearest lib (transform_to_bng lib (gp_gdf ds))
                (lib_to_crs lib (lib_point lib longitude latitude)) = Inr g \<and>
              lib_xy lib (geometry g) = Some (x, y) \<and>
              nearest lib (transform_to_bng lib (pharmacy_gdf ds)) (lib_point lib x y) = Inr ph \<and>
              body = JObj [(''nearest_gp'', nearest_gp_json g),
                           (''nearest_pharmacy_from_gp'', nearest_pharmacy_json ph)] \<and>
              cell ph ''distance'' = JNum (lib_distance lib (geometry ph) (lib_point lib x y)) \<and>
              (\<forall>q\<in>set (transform_to_bng lib (pharmacy_gdf ds)).
                 lib_distance lib (geometry ph) (lib_point lib x y)
                   \<le> lib_distance lib (geometry q) (lib_point lib x y)))) \<and>
         ((\<forall>r\<in>set (gp_gdf ds).
             lib_xy lib (lib_to_crs lib (geometry r)) \<noteq> None \<and>
             set gp_keys \<subseteq> insert ''distance'' (set (map fst (cells r)))) \<and>
          (\<forall>r\<in>set (pharmacy_gdf ds).
             set pharmacy_keys \<subseteq> insert ''distance'' (set (map fst (cells r)))) \<longrightarrow>
            (\<exists>body. nearest_gp_pharmacy lib latitude longitude ds =
                      (JSONResponse 200 body, [ToCrs, ToCrs, ToCrs, Distance, Distance])))"
proof (intro conjI allI impI)
  fix body
  assume "fst (nearest_gp_pharmacy lib latitude longitude ds) = JSONResponse 200 body"
  then show "\<exists>g ph x y.
              nearest lib (transform_to_bng lib (gp_gdf ds))
                (lib_to_crs lib (lib_point lib longitude latitude)) = Inr g \<and>
              lib_xy lib (geometry g) = Some (x, y) \<and>
              nearest lib (transform_to_bng lib (pharmacy_gdf ds)) (lib_point lib x y) = Inr ph \<and>
              body = JObj [(''nearest_gp'', nearest_gp_json g),
                           (''nearest_pharmacy_from_gp'', nearest_pharmacy_json ph)] \<and>
              cell ph ''distance'' = JNum (lib_distance lib (geometry ph) (lib_point lib x y)) \<and>
              (\<forall>q\<in>set (transform_to_bng lib (pharmacy_gdf ds)).
                 lib_distance lib (geometry ph) (lib_point lib x y)
                   \<le> lib_distance lib (geometry q) (lib_point lib x y))"
    by (rule nearest_gp_pharmacy_200 [OF assms])
next
  assume s: "(\<forall>r\<in>set (gp_gdf ds).
             lib_xy lib (lib_to_crs lib (geometry r)) \<noteq> None \<and>
             set gp_keys \<subseteq> insert ''distance'' (set (map fst (cells r)))) \<and>
          (\<forall>r\<in>set (pharmacy_gdf ds).
             set pharmacy_keys \<subseteq> insert ''distance'' (set (map fst (cells r))))"
  show "\<exists>body. nearest_gp_pharmacy lib latitude longitude ds =
                      (JSONResponse 200 body, [ToCrs, ToCrs, ToCrs, Distance, Distance])"
    by (rule nearest_gp_pharmacy_total [OF assms conjunct1 [OF s] conjunct2 [OF s]])
qed

lemma york_pharmacy_bng:
  "transform_to_bng plane (pharmacy_gdf york) =
     [(chemist ''West End'' (- 1 / 2))\<lparr>geometry := Pt (- 500) 0\<rparr>,
      (chemist ''East End'' 2)\<lparr>geometry := Pt 2000 0\<rparr>]"
  by (simp add: york_def chemist_def plane_def transform_to_bng_def)

lemma plane_distance_axis: "lib_distance plane (Pt x 0) (Pt u 0) = \<bar>x - u\<bar>"
  by (simp add: plane_def shape_distance_axis)

lemma york_query_point: "lib_to_crs plane (lib_point plane 0 0) = Pt 0 0"
  by (simp add: plane_def)

lemma york_nearest_gp:
  "nearest plane (transform_to_bng plane (gp_gdf york)) (Pt 0 0) = Inr east_surgery"
  by (simp add: york_bng nearest_def distances_def plane_distance_axis idxmin_def
      set_column_def surgery_def east_surgery_def Let_def)

lemma york_nearest_pharmacy:
  "nearest plane (transform_to_bng plane (pharmacy_gdf york)) (Pt 1000 0) = Inr east_end_chemist"
  by (simp add: york_pharmacy_bng nearest_def distances_def plane_distance_axis idxmin_def
      set_column_def chemist_def east_end_chemist_def Let_def)

lemma york_pharmacy_nonempty: "pharmacy_gdf york \<noteq> []"
  by (simp add: york_def)

lemma york_gp_schema:
  "\<forall>r\<in>set (gp_gdf york).
     lib_xy plane (lib_to_crs plane (geometry r)) \<noteq> None \<and>
     set gp_keys \<subseteq> insert ''distance'' (set (map fst (cells r)))"
  by (simp add: york_def surgery_def plane_def gp_keys_def)

lemma york_pharmacy_schema:
  "\<forall>r\<in>set (pharmacy_gdf york).
     set pharmacy_keys \<subseteq> insert ''distance'' (set (map fst (cells r)))"
  by (simp add: york_def chemist_def pharmacy_keys_def)

text \<open>
  On the sample data the nearest GP to the origin is East, at 1000 metres; the pharmacy
  returned is East End, 1000 metres from that GP, although West End is nearer to the
  query point.
\<close>

theorem nearest_pharmacy_is_nearest_to_returned_gp_witness:
  "(- 90::real) \<le> 0 \<and> (0::real) \<le> 90 \<and> (- 180::real) \<le> 0 \<and> (0::real) \<le> 180 \<and>
   gp_gdf york \<noteq> [] \<and> pharmacy_gdf york \<noteq> [] \<and>
   nearest_gp_pharmacy plane 0 0 york =
     (JSONResponse 200
        (JObj [(''nearest_gp'', nearest_gp_json east_surgery),
               (''nearest_pharmacy_from_gp'', nearest_pharmacy_json east_end_chemist)]),
      [ToCrs, ToCrs, ToCrs, Distance, Distance]) \<and>
   lib_distance plane (Pt (- 500) 0) (Pt 0 0) < lib_distance plane (geometry east_end_chemist) (Pt 0 0)"
proof -
  note T = nearest_pharmacy_is_nearest_to_returned_gp
    [of 0 0 york plane, OF _ _ _ _ york_gp_nonempty york_pharmacy_nonempty]
  have T': "(\<forall>body. fst (nearest_gp_pharmacy plane 0 0 york) = JSONResponse 200 body \<longrightarrow>
           (\<exists>g ph x y.
              nearest plane (transform_to_bng plane (gp_gdf york)) (Pt 0 0) = Inr g \<and>
              lib_xy plane (geometry g) = Some (x, y) \<and>
              nearest plane (transform_to_bng plane (pharmacy_gdf york)) (lib_point plane x y) = Inr ph \<and>
              body = JObj [(''nearest_gp'', nearest_gp_json g),
                           (''nearest_pharmacy_from_gp'', nearest_pharmacy_json ph)])) \<and>
         (\<exists>body. nearest_gp_pharmacy plane 0 0 york =
                      (JSONResponse 200 body, [ToCrs, ToCrs, ToCrs, Distance, Distance]))"
    using T york_gp_schema york_pharmacy_schema
    by (simp only: york_query_point) fastforce
  then obtain body where b: "nearest_gp_pharmacy plane 0 0 york =
                      (JSONResponse 200 body, [ToCrs, ToCrs, ToCrs, Distance, Distance])"
    by blast
  then have "fst (nearest_gp_pharmacy plane 0 0 york) = JSONResponse 200 body" by simp
  with T' obtain g ph x y where
    g: "nearest plane (transform_to_bng plane (gp_gdf york)) (Pt 0 0) = Inr g" and
    xy: "lib_xy plane (geometry g) = Some (x, y)" and
    ph: "nearest plane (transform_to_bng plane (pharmacy_gdf york)) (lib_point plane x y) = Inr ph" and
    body: "body = JObj [(''nearest_gp'', nearest_gp_json g),
                        (''nearest_pharmacy_from_gp'', nearest_pharmacy_json ph)]"
    by blast
  have g': "g = east_surgery" using g by (simp add: york_nearest_gp)
  have "x = 1000 \<and> y = 0" using xy by (simp add: g' east_surgery_def plane_def)
  then have "lib_point plane x y = Pt 1000 0" by (simp add: plane_def)
  then have ph': "ph = east_end_chemist" using ph by (simp add: york_nearest_pharmacy)
  have far: "lib_distance plane (Pt (- 500) 0) (Pt 0 0)
               < lib_distance plane (geometry east_end_chemist) (Pt 0 0)"
    by (simp add: east_end_chemist_def plane_distance_axis)
  show ?thesis
    using b body g' ph' far york_gp_nonempty york_pharmacy_nonempty by simp
qed

section \<open>Bins in nature areas: counts, idempotence and the shared frames\<close>

lemma count_list_append_sum: "count_list (xs @ ys) x = count_list xs x + count_list ys x"
  by (induction xs) auto

lemma count_list_filter: "count_list (filter Q js) j = (if Q j then count_list js j else 0)"
  by (induction js) auto

lemma count_list_upt: "count_list [0..<m] j = (if j < m then 1 else 0)"
  by (induction m) (auto simp add: count_list_append_sum)

lemma count_list_pairs:
  "count_list (map snd (concat (map (\<lambda>i. map (\<lambda>j. (i, j)) (filter (P i) js)) xs))) j =
     length (filter (\<lambda>i. P i j) xs) * count_list js j"
  by (induction xs) (auto simp add: count_list_append_sum count_list_filter comp_def)

lemma count_sjoin:
  "j < length right \<Longrightarrow>
   count_list (map snd (sjoin lib left right)) j =
     length (filter (\<lambda>i. lib_within lib (geometry (left ! i)) (geometry (right ! j)))
                    [0..<length left])"
  by (simp add: sjoin_def count_list_pairs count_list_upt)

lemma filter_upt_nth:
  "length (filter (\<lambda>i. Q (xs ! i)) [0..<length xs]) = length (filter Q xs)"
proof -
  have "filter Q (map (\<lambda>i. xs ! i) [0..<length xs]) =
          map (\<lambda>i. xs ! i) (filter (\<lambda>i. Q (xs ! i)) [0..<length xs])"
    by (simp add: filter_map comp_def)
  then have "length (filter Q (map (\<lambda>i. xs ! i) [0..<length xs])) =
               length (filter (\<lambda>i. Q (xs ! i)) [0..<length xs])"
    by simp
  then show ?thesis by (simp add: map_nth)
qed

lemma map_of_groupby_size:
  "map_of (groupby_size ks) j = (if j \<in> set ks then Some (count_list ks j) else None)"
proof -
  have "map_of (map (\<lambda>k. (k, count_list ks k)) xs) j =
          (if j \<in> set xs then Some (count_list ks j) else None)" for xs
    by (induction xs) auto
  then show ?thesis by (simp add: groupby_size_def)
qed

lemma fillna_groupby_size:
  "(case map_of (groupby_size ks) j of None \<Rightarrow> 0 | Some c \<Rightarrow> int c) = int (count_list ks j)"
  by (simp add: map_of_groupby_size)

lemma bin_counts_eq:
  "bin_counts lib bins areas =
     map (\<lambda>a. int (length (filter (\<lambda>b. lib_within lib (geometry b) (geometry a)) bins))) areas"
proof -
  have "bin_counts lib bins areas =
          map (\<lambda>j. int (count_list (map snd (sjoin lib bins areas)) j)) [0..<length areas]"
    by (simp add: bin_counts_def Let_def fillna_groupby_size)
  also have "\<dots> = map (\<lambda>j. int (length (filter (\<lambda>b. lib_within lib (geometry b)
                                                  (geometry (areas ! j))) bins)))
                      [0..<length areas]"
  proof (rule map_cong)
    fix j assume "j \<in> set [0..<length areas]"
    then have j: "j < length areas" by simp
    show "int (count_list (map snd (sjoin lib bins areas)) j) =
            int (length (filter (\<lambda>b. lib_within lib (geometry b) (geometry (areas ! j))) bins))"
      using filter_upt_nth [of "\<lambda>b. lib_within lib (geometry b) (geometry (areas ! j))" bins]
      by (simp add: count_sjoin [OF j])
  qed simp
  also have "\<dots> = map (\<lambda>a. int (length (filter (\<lambda>b. lib_within lib (geometry b) (geometry a)) bins)))
                      (map (\<lambda>j. areas ! j) [0..<length areas])"
    by (simp add: comp_def)
  finally show ?thesis by (simp add: map_nth)
qed

lemma length_bin_counts: "length (bin_counts lib bins areas) = length areas"
  by (simp add: bin_counts_eq)

lemma snd_sjoin_bound: "set (map snd (sjoin lib left right)) \<subseteq> {0..<length right}"
  by (auto simp add: sjoin_def)

lemma sum_list_int: "sum_list (map (\<lambda>j. int (f j)) xs) = int (sum_list (map f xs))"
  by (induction xs) simp_all

lemma sum_bin_counts:
  "sum_list (bin_counts lib bins areas) = int (length (sjoin lib bins areas))"
proof -
  let ?ks = "map snd (sjoin lib bins areas)"
  have "bin_counts lib bins areas = map (\<lambda>j. int (count_list ?ks j)) [0..<length areas]"
    by (simp add: bin_counts_def Let_def fillna_groupby_size)
  then have "sum_list (bin_counts lib bins areas) =
               int (sum_list (map (count_list ?ks) [0..<length areas]))"
    by (simp only: sum_list_int)
  also have "sum_list (map (count_list ?ks) [0..<length areas]) =
               sum (count_list ?ks) {0..<length areas}"
    by (simp add: interv_sum_list_conv_sum_set_nat)
  also have "\<dots> = length ?ks"
    by (rule sum_count_set) (simp_all add: snd_sjoin_bound del: set_map)
  finally show ?thesis by simp
qed

lemma distinct_left_labels:
  assumes "distinct xs" and "\<forall>i\<in>set xs. length (filter (P i) js) \<le> 1"
  shows "distinct (map fst (concat (map (\<lambda>i. map (\<lambda>j. (i, j)) (filter (P i) js)) xs)))"
  using assms
proof (induction xs)
  case Nil
  show ?case by simp
next
  case (Cons i xs)
  have one: "length (filter (P i) js) \<le> 1" using Cons.prems by simp
  have "map fst (map (\<lambda>j. (i, j)) (filter (P i) js)) = replicate (length (filter (P i) js)) i"
    by (simp add: comp_def map_replicate_const)
  moreover have "distinct (replicate (length (filter (P i) js)) i)"
    using one by (cases "filter (P i) js") simp_all
  moreover have "set (map fst (concat (map (\<lambda>i. map (\<lambda>j. (i, j)) (filter (P i) js)) xs))) \<subseteq> set xs"
    by auto
  moreover have "i \<notin> set xs" "distinct xs" using Cons.prems by simp_all
  moreover have "distinct (map fst (concat (map (\<lambda>i. map (\<lambda>j. (i, j)) (filter (P i) js)) xs)))"
    using Cons by simp
  ultimately show ?case by auto
qed

lemma at_most_one_filter:
  assumes "distinct js" and "\<forall>j\<in>set js. \<forall>j'\<in>set js. Q j \<and> Q j' \<longrightarrow> j = j'"
  shows "length (filter Q js) \<le> 1"
proof (cases "filter Q js")
  case Nil
  then show ?thesis by simp
next
  case (Cons a as)
  have d: "distinct (filter Q js)" using assms(1) by simp
  show ?thesis
  proof (cases as)
    case Nil
    with Cons show ?thesis by simp
  next
    case (Cons b bs)
    have "a \<in> set (filter Q js)" "b \<in> set (filter Q js)"
      using \<open>filter Q js = a # as\<close> Cons by simp_all
    then have "a = b" using assms(2) by auto
    moreover have "a \<noteq> b" using d \<open>filter Q js = a # as\<close> Cons by simp
    ultimately show ?thesis by simp
  qed
qed

lemma sjoin_distinct_points:
  assumes "\<forall>i<length left. \<forall>j<length right. \<forall>j'<length right.
             lib_within lib (geometry (left ! i)) (geometry (right ! j)) \<and>
             lib_within lib (geometry (left ! i)) (geometry (right ! j')) \<longrightarrow> j = j'"
  shows "length (remdups (map fst (sjoin lib left right))) = length (sjoin lib left right)"
proof -
  have "distinct (map fst (sjoin lib left right))"
    unfolding sjoin_def
  proof (rule distinct_left_labels)
    show "distinct [0..<length left]" by simp
    show "\<forall>i\<in>set [0..<length left].
            length (filter (\<lambda>j. lib_within lib (geometry (left ! i)) (geometry (right ! j)))
                           [0..<length right]) \<le> 1"
    proof
      fix i assume "i \<in> set [0..<length left]"
      then have i: "i < length left" by simp
      show "length (filter (\<lambda>j. lib_within lib (geometry (left ! i)) (geometry (right ! j)))
                           [0..<length right]) \<le> 1"
        by (rule at_most_one_filter) (use assms i in auto)
    qed
  qed
  then show ?thesis by (simp add: distinct_remdups_id)
qed

lemma with_bin_count_eq:
  "with_bin_count lib bins areas =
     map (\<lambda>a. a\<lparr>cells := set_cell ''bin_count''
                    (JInt (int (length (filter (\<lambda>b. lib_within lib (geometry b) (geometry a)) bins))))
                    (cells a)\<rparr>) areas"
  by (simp add: with_bin_count_def set_column_def bin_counts_eq zip_map2 zip_same_conv_map comp_def)

lemma nature_reserve_entries_Inr:
  "nature_reserve_entries rs = Inr js \<Longrightarrow> js = map nature_reserve_json rs"
  by (induction rs arbitrary: js) (auto split: option.splits sum.splits if_splits)

lemma conservation_area_entries_Inr:
  "conservation_area_entries rs = Inr js \<Longrightarrow> js = map conservation_area_json rs"
  by (induction rs arbitrary: js) (auto split: option.splits sum.splits if_splits)

lemma nature_reserve_entries_total:
  "\<forall>r\<in>set rs. {''LV_NAME'', ''LV_DETAILS'', ''DESCRIPTION'', ''bin_count''} \<subseteq> set (map fst (cells r)) \<Longrightarrow>
   nature_reserve_entries rs = Inr (map nature_reserve_json rs)"
  by (induction rs) (simp_all del: set_map)

lemma conservation_area_entries_total:
  "\<forall>r\<in>set rs. {''Name'', ''bin_count''} \<subseteq> set (map fst (cells r)) \<Longrightarrow>
   conservation_area_entries rs = Inr (map conservation_area_json rs)"
  by (induction rs) (simp_all del: set_map)

lemma find_bins_valid:
  assumes "bins_gdf ds \<noteq> []" "nature_reserves_gdf ds \<noteq> []" "conservation_areas_gdf ds \<noteq> []"
  shows "find_bins lib ds =
     (case nature_reserve_entries (with_bin_count lib (bins_gdf ds) (nature_reserves_gdf ds)) of
        Inl e \<Rightarrow>
          (Unhandled e, [SJoin, SJoin],
           ds\<lparr>nature_reserves_gdf := with_bin_count lib (bins_gdf ds) (nature_reserves_gdf ds),
              conservation_areas_gdf := with_bin_count lib (bins_gdf ds) (conservation_areas_gdf ds)\<rparr>)
      | Inr ns \<Rightarrow>
          (case conservation_area_entries
                  (with_bin_count lib (bins_gdf ds) (conservation_areas_gdf ds)) of
             Inl e \<Rightarrow>
               (Unhandled e, [SJoin, SJoin],
                ds\<lparr>nature_reserves_gdf := with_bin_count lib (bins_gdf ds) (nature_reserves_gdf ds),
                   conservation_areas_gdf := with_bin_count lib (bins_gdf ds) (conservation_areas_gdf ds)\<rparr>)
           | Inr cs \<Rightarrow>
               (JSONResponse 200
                  (JObj [(''nature_reserve_bin_count'', JArr ns),
                         (''conservation_area_bin_count'', JArr cs)]),
                [SJoin, SJoin],
                ds\<lparr>nature_reserves_gdf := with_bin_count lib (bins_gdf ds) (nature_reserves_gdf ds),
                   conservation_areas_gdf := with_bin_count lib (bins_gdf ds) (conservation_areas_gdf ds)\<rparr>)))"
  using assms by (simp add: find_bins_def Let_def)

lemma nature_reserve_json_counted:
  "nature_reserve_json (a\<lparr>cells := set_cell ''bin_count'' v (cells a)\<rparr>) =
     JObj [(''type'', JStr ''Nature Reserve''),
           (''name'', cell a ''LV_NAME''),
           (''details'', cell a ''LV_DETAILS''),
           (''description'', cell a ''DESCRIPTION''),
           (''binCount'', v)]"
  by (simp add: nature_reserve_json_def cell_def map_of_set_cell_same map_of_set_cell_other)

lemma conservation_area_json_counted:
  "conservation_area_json (a\<lparr>cells := set_cell ''bin_count'' v (cells a)\<rparr>) =
     JObj [(''type'', JStr ''Conservation Area''),
           (''name'', cell a ''Name''),
           (''binCount'', v)]"
  by (simp add: conservation_area_json_def cell_def map_of_set_cell_same map_of_set_cell_other)

lemma nature_reserve_report:
  "map nature_reserve_json (with_bin_count lib bins areas) =
     map (\<lambda>a. JObj [(''type'', JStr ''Nature Reserve''),
                     (''name'', cell a ''LV_NAME''),
                     (''details'', cell a ''LV_DETAILS''),
                     (''description'', cell a ''DESCRIPTION''),
                     (''binCount'',
                        JInt (int (length (filter (\<lambda>b. lib_within lib (geometry b) (geometry a))
                                                  bins))))]) areas"
  by (simp add: with_bin_count_eq comp_def nature_reserve_json_counted)

lemma conservation_area_report:
  "map conservation_area_json (with_bin_count lib bins areas) =
     map (\<lambda>a. JObj [(''type'', JStr ''Conservation Area''),
                     (''name'', cell a ''Name''),
                     (''binCount'',
                        JInt (int (length (filter (\<lambda>b. lib_within lib (geometry b) (geometry a))
                                                  bins))))]) areas"
  by (simp add: with_bin_count_eq comp_def conservation_area_json_counted)

lemma find_bins_200:
  assumes "bins_gdf ds \<noteq> []" "nature_reserves_gdf ds \<noteq> []" "conservation_areas_gdf ds \<noteq> []"
    and ok: "fst (find_bins lib ds) = JSONResponse 200 body"
  shows "body =
     JObj [(''nature_reserve_bin_count'',
              JArr (map nature_reserve_json
                      (with_bin_count lib (bins_gdf ds) (nature_reserves_gdf ds)))),
           (''conservation_area_bin_count'',
              JArr (map conservation_area_json
                      (with_bin_count lib (bins_gdf ds) (conservation_areas_gdf ds))))]"
proof -
  note eq = find_bins_valid [OF assms(1-3), of lib]
  show ?thesis
  proof (cases "nature_reserve_entries (with_bin_count lib (bins_gdf ds) (nature_reserves_gdf ds))")
    case (Inl e)
    then have "fst (find_bins lib ds) = Unhandled e" by (simp add: eq)
    with ok show ?thesis by simp
  next
    case ns: (Inr ns)
    show ?thesis
    proof (cases "conservation_area_entries
                    (with_bin_count lib (bins_gdf ds) (conservation_areas_gdf ds))")
      case (Inl e)
      then have "fst (find_bins lib ds) = Unhandled e" by (simp add: eq ns)
      with ok show ?thesis by simp
    next
      case cs: (Inr cs)
      have "fst (find_bins lib ds) =
              JSONResponse 200 (JObj [(''nature_reserve_bin_count'', JArr ns),
                                      (''conservation_area_bin_count'', JArr cs)])"
        by (simp add: eq ns cs)
      then show ?thesis
        using ok nature_reserve_entries_Inr [OF ns] conservation_area_entries_Inr [OF cs]
        by simp
    qed
  qed
qed

lemma keys_with_bin_count:
  "r \<in> set (with_bin_count lib bins areas) \<Longrightarrow>
   \<exists>a\<in>set areas. set (map fst (cells r)) = insert ''bin_count'' (set (map fst (cells a)))"
proof -
  assume "r \<in> set (with_bin_count lib bins areas)"
  then obtain a where a: "a \<in> set areas"
    "r = a\<lparr>cells := set_cell ''bin_count''
            (JInt (int (length (filter (\<lambda>b. lib_within lib (geometry b) (geometry a)) bins))))
            (cells a)\<rparr>"
    unfolding with_bin_count_eq by auto
  have "set (map fst (cells r)) = insert ''bin_count'' (set (map fst (cells a)))"
    unfolding a(2) by (simp add: keys_set_cell del: set_map)
  with a(1) show ?thesis by blast
qed

lemma find_bins_total:
  assumes "bins_gdf ds \<noteq> []" "nature_reserves_gdf ds \<noteq> []" "conservation_areas_gdf ds \<noteq> []"
    and n: "\<forall>a\<in>set (nature_reserves_gdf ds).
              {''LV_NAME'', ''LV_DETAILS'', ''DESCRIPTION''} \<subseteq> set (map fst (cells a))"
    and c: "\<forall>a\<in>set (conservation_areas_gdf ds). ''Name'' \<in> set (map fst (cells a))"
  shows "\<exists>body. fst (find_bins lib ds) = JSONResponse 200 body"
proof -
  note eq = find_bins_valid [OF assms(1-3), of lib]
  have "\<forall>r\<in>set (with_bin_count lib (bins_gdf ds) (nature_reserves_gdf ds)).
          {''LV_NAME'', ''LV_DETAILS'', ''DESCRIPTION'', ''bin_count''} \<subseteq> set (map fst (cells r))"
  proof
    fix r assume "r \<in> set (with_bin_count lib (bins_gdf ds) (nature_reserves_gdf ds))"
    then obtain a where a: "a \<in> set (nature_reserves_gdf ds)"
      "set (map fst (cells r)) = insert ''bin_count'' (set (map fst (cells a)))"
      using keys_with_bin_count by blast
    have "{''LV_NAME'', ''LV_DETAILS'', ''DESCRIPTION''} \<subseteq> set (map fst (cells a))"
      using n a(1) by blast
    then show "{''LV_NAME'', ''LV_DETAILS'', ''DESCRIPTION'', ''bin_count''} \<subseteq> set (map fst (cells r))"
      unfolding a(2) by blast
  qed
  then have ns: "nature_reserve_entries (with_bin_count lib (bins_gdf ds) (nature_reserves_gdf ds)) =
                   Inr (map nature_reserve_json
                          (with_bin_count lib (bins_gdf ds) (nature_reserves_gdf ds)))"
    by (rule nature_reserve_entries_total)
  have "\<forall>r\<in>set (with_bin_count lib (bins_gdf ds) (conservation_areas_gdf ds)).
          {''Name'', ''bin_count''} \<subseteq> set (map fst (cells r))"
  proof
    fix r assume "r \<in> set (with_bin_count lib (bins_gdf ds) (conservation_areas_gdf ds))"
    then obtain a where a: "a \<in> set (conservation_areas_gdf ds)"
      "set (map fst (cells r)) = insert ''bin_count'' (set (map fst (cells a)))"
      using keys_with_bin_count by blast
    have "''Name'' \<in> set (map fst (cells a))" using c a(1) by blast
    then show "{''Name'', ''bin_count''} \<subseteq> set (map fst (cells r))"
      unfolding a(2) by blast
  qed
  then have cs: "conservation_area_entries
                   (with_bin_count lib (bins_gdf ds) (conservation_areas_gdf ds)) =
                 Inr (map conservation_area_json
                        (with_bin_count lib (bins_gdf ds) (conservation_areas_gdf ds)))"
    by (rule conservation_area_entries_total)
  show ?thesis by (simp add: eq ns cs)
qed

text \<open>
  Claim C3, as amended. With the three datasets nonempty, a 200 response lists for each
  of the two polygon frames one entry per polygon, in frame order, whose
  \<^verbatim>\<open>binCount\<close> is the number of bins within that polygon, 0 included; the response
  is 200 whenever the frames have the columns the entries read. For a polygon frame
  the sum of these counts is the number of rows of the inner join, that is of pairs of
  a bin and a polygon it is within; it is the number of distinct bins in the join when
  no bin is within two polygons of the frame.
\<close>

theorem bins_report_lists_every_polygon:
  assumes "bins_gdf ds \<noteq> []" "nature_reserves_gdf ds \<noteq> []" "conservation_areas_gdf ds \<noteq> []"
  shows "(\<forall>body. fst (find_bins lib ds) = JSONResponse 200 body \<longrightarrow>
            body =
              JObj [(''nature_reserve_bin_count'',
                       JArr (map (\<lambda>a. JObj [(''type'', JStr ''Nature Reserve''),
                                             (''name'', cell a ''LV_NAME''),
                                             (''details'', cell a ''LV_DETAILS''),
                                             (''description'', cell a ''DESCRIPTION''),
                                             (''binCount'',
                                                JInt (int (length (filter
                                                  (\<lambda>b. lib_within lib (geometry b) (geometry a))
                                                  (bins_gdf ds)))))])
                                 (nature_reserves_gdf ds))),
                    (''conservation_area_bin_count'',
                       JArr (map (\<lambda>a. JObj [(''type'', JStr ''Conservation Area''),
                                             (''name'', cell a ''Name''),
                                             (''binCount'',
                                                JInt (int (length (filter
                                                  (\<lambda>b. lib_within lib (geometry b) (geometry a))
                                                  (bins_gdf ds)))))])
                                 (conservation_areas_gdf ds)))]) \<and>
         ((\<forall>a\<in>set (nature_reserves_gdf ds).
             {''LV_NAME'', ''LV_DETAILS'', ''DESCRIPTION''} \<subseteq> set (map fst (cells a))) \<and>
          (\<forall>a\<in>set (conservation_areas_gdf ds). ''Name'' \<in> set (map fst (cells a))) \<longrightarrow>
            (\<exists>body. fst (find_bins lib ds) = JSONResponse 200 body)) \<and>
         sum_list (map (\<lambda>a. int (length (filter (\<lambda>b. lib_within lib (geometry b) (geometry a))
                                                 (bins_gdf ds)))) areas) =
           int (length (sjoin lib (bins_gdf ds) areas)) \<and>
         ((\<forall>i<length (bins_gdf ds). \<forall>j<length areas. \<forall>j'<length areas.
             lib_within lib (geometry (bins_gdf ds ! i)) (geometry (areas ! j)) \<and>
             lib_within lib (geometry (bins_gdf ds ! i)) (geometry (areas ! j')) \<longrightarrow> j = j') \<longrightarrow>
            sum_list (map (\<lambda>a. int (length (filter (\<lambda>b. lib_within lib (geometry b) (geometry a))
                                                    (bins_gdf ds)))) areas) =
              int (length (remdups (map fst (sjoin lib (bins_gdf ds) areas)))))"
proof (intro conjI allI impI)
  fix body
  assume "fst (find_bins lib ds) = JSONResponse 200 body"
  then show "body =
              JObj [(''nature_reserve_bin_count'',
                       JArr (map (\<lambda>a. JObj [(''type'', JStr ''Nature Reserve''),
                                             (''name'', cell a ''LV_NAME''),
                                             (''details'', cell a ''LV_DETAILS''),
                                             (''description'', cell a ''DESCRIPTION''),
                                             (''binCount'',
                                                JInt (int (length (filter
                                                  (\<lambda>b. lib_within lib (geometry b) (geometry a))
                                                  (bins_gdf ds)))))])
                                 (nature_reserves_gdf ds))),
                    (''conservation_area_bin_count'',
                       JArr (map (\<lambda>a. JObj [(''type'', JStr ''Conservation Area''),
                                             (''name'', cell a ''Name''),
                                             (''binCount'',
                                                JInt (int (length (filter
                                                  (\<lambda>b. lib_within lib (geometry b) (geometry a))
                                                  (bins_gdf ds)))))])
                                 (conservation_areas_gdf ds)))]"
    using find_bins_200 [OF assms, of lib body]
    by (simp only: nature_reserve_report conservation_area_report)
next
  assume s: "(\<forall>a\<in>set (nature_reserves_gdf ds).
             {''LV_NAME'', ''LV_DETAILS'', ''DESCRIPTION''} \<subseteq> set (map fst (cells a))) \<and>
          (\<forall>a\<in>set (conservation_areas_gdf ds). ''Name'' \<in> set (map fst (cells a)))"
  show "\<exists>body. fst (find_bins lib ds) = JSONResponse 200 body"
    by (rule find_bins_total [OF assms conjunct1 [OF s] conjunct2 [OF s]])
next
  show sum: "sum_list (map (\<lambda>a. int (length (filter (\<lambda>b. lib_within lib (geometry b) (geometry a))
                                                 (bins_gdf ds)))) areas) =
           int (length (sjoin lib (bins_gdf ds) areas))"
    using sum_bin_counts [of lib "bins_gdf ds" areas] by (simp only: bin_counts_eq)
  assume "\<forall>i<length (bins_gdf ds). \<forall>j<length areas. \<forall>j'<length areas.
             lib_within lib (geometry (bins_gdf ds ! i)) (geometry (areas ! j)) \<and>
             lib_within lib (geometry (bins_gdf ds ! i)) (geometry (areas ! j')) \<longrightarrow> j = j'"
  then have "length (remdups (map fst (sjoin lib (bins_gdf ds) areas))) =
               length (sjoin lib (bins_gdf ds) areas)"
    by (rule sjoin_distinct_points)
  then show "sum_list (map (\<lambda>a. int (length (filter (\<lambda>b. lib_within lib (geometry b) (geometry a))
                                                    (bins_gdf ds)))) areas) =
              int (length (remdups (map fst (sjoin lib (bins_gdf ds) areas))))"
    using sum by simp
qed

lemma plane_within: "lib_within plane a b = shape_within a b"
  by (simp add: plane_def)

lemma york_frames:
  "bins_gdf york = [bin 0 0, bin 9 9]"
  "nature_reserves_gdf york = [reserve ''Moor'' (Disc 0 0 1), reserve ''Fields'' (Disc 1 0 2)]"
  "conservation_areas_gdf york = [area ''Centre'' (Disc 5 5 1)]"
  by (simp_all add: york_def)

lemma york_nature_counted:
  "with_bin_count plane (bins_gdf york) (nature_reserves_gdf york) =
     [counted 1 (reserve ''Moor'' (Disc 0 0 1)), counted 1 (reserve ''Fields'' (Disc 1 0 2))]"
  by (simp add: with_bin_count_eq york_frames plane_within bin_def reserve_def counted_def)

lemma york_conservation_counted:
  "with_bin_count plane (bins_gdf york) (conservation_areas_gdf york) =
     [counted 0 (area ''Centre'' (Disc 5 5 1))]"
  by (simp add: with_bin_count_eq york_frames plane_within bin_def area_def counted_def)

lemma york_sjoin_nature:
  "sjoin plane (bins_gdf york) (nature_reserves_gdf york) = [(0, 0), (0, 1)]"
  by (simp add: sjoin_def york_frames plane_within bin_def reserve_def upt_rec nth_Cons')

lemma york_sjoin_conservation:
  "sjoin plane (bins_gdf york) (conservation_areas_gdf york) = []"
  by (simp add: sjoin_def york_frames plane_within bin_def area_def upt_rec nth_Cons')

lemma york_nonempty:
  "bins_gdf york \<noteq> []" "nature_reserves_gdf york \<noteq> []" "conservation_areas_gdf york \<noteq> []"
  by (simp_all add: york_frames)

lemma york_polygon_columns:
  "\<forall>a\<in>set (nature_reserves_gdf york).
     {''LV_NAME'', ''LV_DETAILS'', ''DESCRIPTION''} \<subseteq> set (map fst (cells a))"
  "\<forall>a\<in>set (conservation_areas_gdf york). ''Name'' \<in> set (map fst (cells a))"
  by (simp_all add: york_frames reserve_def area_def)

text \<open>
  On the sample data both reserves are listed with count 1 and the conservation area,
  which holds no bin, with count 0; its join is empty.
\<close>

theorem bins_report_lists_every_polygon_witness:
  "bins_gdf york \<noteq> [] \<and> nature_reserves_gdf york \<noteq> [] \<and> conservation_areas_gdf york \<noteq> [] \<and>
   fst (find_bins plane york) =
     JSONResponse 200
       (JObj [(''nature_reserve_bin_count'',
                 JArr [JObj [(''type'', JStr ''Nature Reserve''), (''name'', JStr ''Moor''),
                             (''details'', JNull), (''description'', JNull),
                             (''binCount'', JInt 1)],
                       JObj [(''type'', JStr ''Nature Reserve''), (''name'', JStr ''Fields''),
                             (''details'', JNull), (''description'', JNull),
                             (''binCount'', JInt 1)]]),
              (''conservation_area_bin_count'',
                 JArr [JObj [(''type'', JStr ''Conservation Area''), (''name'', JStr ''Centre''),
                             (''binCount'', JInt 0)]])]) \<and>
   length (sjoin plane (bins_gdf york) (conservation_areas_gdf york)) = 0 \<and>
   length (remdups (map fst (sjoin plane (bins_gdf york) (conservation_areas_gdf york)))) = 0"
proof -
  note T = bins_report_lists_every_polygon
    [OF york_nonempty, of plane "conservation_areas_gdf york"]
  obtain body where b: "fst (find_bins plane york) = JSONResponse 200 body"
    using T york_polygon_columns by blast
  have "body =
          JObj [(''nature_reserve_bin_count'',
                   JArr [JObj [(''type'', JStr ''Nature Reserve''), (''name'', JStr ''Moor''),
                               (''details'', JNull), (''description'', JNull),
                               (''binCount'', JInt 1)],
                         JObj [(''type'', JStr ''Nature Reserve''), (''name'', JStr ''Fields''),
                               (''details'', JNull), (''description'', JNull),
                               (''binCount'', JInt 1)]]),
                (''conservation_area_bin_count'',
                   JArr [JObj [(''type'', JStr ''Conservation Area''), (''name'', JStr ''Centre''),
                               (''binCount'', JInt 0)]])]"
    using conjunct1 [OF T, rule_format, OF b]
    by (simp add: york_frames plane_within bin_def reserve_def area_def cell_def)
  moreover have "int (length (sjoin plane (bins_gdf york) (conservation_areas_gdf york))) = 0"
    using conjunct1 [OF conjunct2 [OF conjunct2 [OF T]]]
    by (simp add: york_frames plane_within bin_def area_def)
  moreover have "length (remdups (map fst (sjoin plane (bins_gdf york) (conservation_areas_gdf york)))) = 0"
    by (simp add: york_sjoin_conservation)
  ultimately show ?thesis using b york_nonempty by simp
qed

text \<open>
  Claim C3 as stated fails where polygons overlap. The bin at the origin is within both
  reserves of the sample data: the join has two rows for it, the counts sum to 2, and
  one point feature is matched.
\<close>

theorem overlapping_reserves_count_a_bin_twice:
  "bins_gdf york \<noteq> [] \<and> nature_reserves_gdf york \<noteq> [] \<and> conservation_areas_gdf york \<noteq> [] \<and>
   sjoin plane (bins_gdf york) (nature_reserves_gdf york) = [(0, 0), (0, 1)] \<and>
   bin_counts plane (bins_gdf york) (nature_reserves_gdf york) = [1, 1] \<and>
   sum_list (bin_counts plane (bins_gdf york) (nature_reserves_gdf york)) = 2 \<and>
   length (remdups (map fst (sjoin plane (bins_gdf york) (nature_reserves_gdf york)))) = 1"
proof -
  have "bin_counts plane (bins_gdf york) (nature_reserves_gdf york) = [1, 1]"
    by (simp add: bin_counts_eq york_frames plane_within bin_def reserve_def)
  then show ?thesis
    using york_nonempty by (simp add: york_sjoin_nature)
qed

lemma with_bin_count_idem:
  "with_bin_count lib bins (with_bin_count lib bins areas) = with_bin_count lib bins areas"
  by (simp add: with_bin_count_eq comp_def set_cell_twice)

lemma with_bin_count_Nil_iff: "with_bin_count lib bins areas = [] \<longleftrightarrow> areas = []"
  by (simp add: with_bin_count_eq)

lemma find_bins_datasets:
  assumes "bins_gdf ds \<noteq> []" "nature_reserves_gdf ds \<noteq> []" "conservation_areas_gdf ds \<noteq> []"
  shows "snd (snd (find_bins lib ds)) =
           ds\<lparr>nature_reserves_gdf := with_bin_count lib (bins_gdf ds) (nature_reserves_gdf ds),
              conservation_areas_gdf := with_bin_count lib (bins_gdf ds) (conservation_areas_gdf ds)\<rparr>"
  by (simp add: find_bins_valid [OF assms] split: sum.splits)

lemma find_bins_unavailable:
  assumes "bins_gdf ds = [] \<or> nature_reserves_gdf ds = [] \<or> conservation_areas_gdf ds = []"
  shows "snd (snd (find_bins lib ds)) = ds"
  using assms by (auto simp add: find_bins_def)

lemma find_bins_again:
  assumes "bins_gdf ds \<noteq> []" "nature_reserves_gdf ds \<noteq> []" "conservation_areas_gdf ds \<noteq> []"
  shows "find_bins lib
           (ds\<lparr>nature_reserves_gdf := with_bin_count lib (bins_gdf ds) (nature_reserves_gdf ds),
               conservation_areas_gdf := with_bin_count lib (bins_gdf ds) (conservation_areas_gdf ds)\<rparr>) =
         find_bins lib ds"
proof -
  let ?ds' = "ds\<lparr>nature_reserves_gdf := with_bin_count lib (bins_gdf ds) (nature_reserves_gdf ds),
               conservation_areas_gdf := with_bin_count lib (bins_gdf ds) (conservation_areas_gdf ds)\<rparr>"
  have ne: "bins_gdf ?ds' \<noteq> []" "nature_reserves_gdf ?ds' \<noteq> []" "conservation_areas_gdf ?ds' \<noteq> []"
    using assms by (simp_all add: with_bin_count_Nil_iff)
  show ?thesis
    by (simp add: find_bins_valid [OF ne] find_bins_valid [OF assms] with_bin_count_idem
        split: sum.splits)
qed

text \<open>
  Claim C10. Whatever a request to \<^verbatim>\<open>/bins-in-nature-areas\<close> answers and leaves
  behind, the same request on the datasets it left behind answers the same, with the
  same effects, and leaves them as they are: the column is recomputed from the
  geometries and overwritten by the same values.
\<close>

theorem find_bins_idempotent:
  assumes "find_bins lib ds = (resp, evs, ds')"
  shows "find_bins lib ds' = (resp, evs, ds')"
proof (cases "bins_gdf ds = [] \<or> nature_reserves_gdf ds = [] \<or> conservation_areas_gdf ds = []")
  case True
  then have "snd (snd (find_bins lib ds)) = ds" by (rule find_bins_unavailable)
  then have "ds' = ds" using assms by simp
  then show ?thesis using assms by simp
next
  case False
  then have ne: "bins_gdf ds \<noteq> []" "nature_reserves_gdf ds \<noteq> []" "conservation_areas_gdf ds \<noteq> []"
    by simp_all
  have "ds' = snd (snd (find_bins lib ds))" using assms by simp
  then have "find_bins lib ds' = find_bins lib ds"
    by (simp only: find_bins_datasets [OF ne] find_bins_again [OF ne])
  then show ?thesis using assms by simp
qed

lemma find_bins_york:
  "find_bins plane york =
     (JSONResponse 200
        (JObj [(''nature_reserve_bin_count'',
                  JArr [nature_reserve_json (counted 1 (reserve ''Moor'' (Disc 0 0 1))),
                        nature_reserve_json (counted 1 (reserve ''Fields'' (Disc 1 0 2)))]),
               (''conservation_area_bin_count'',
                  JArr [conservation_area_json (counted 0 (area ''Centre'' (Disc 5 5 1)))])]),
      [SJoin, SJoin], york_counted)"
  by (simp add: find_bins_valid [OF york_nonempty] york_nature_counted york_conservation_counted
      york_counted_def counted_def reserve_def area_def)

text \<open>
  On the sample data the first request answers 200 and adds the column; the second
  request, on the datasets with the column, gives the same result.
\<close>

theorem find_bins_idempotent_witness:
  "find_bins plane york =
     (JSONResponse 200
        (JObj [(''nature_reserve_bin_count'',
                  JArr [nature_reserve_json (counted 1 (reserve ''Moor'' (Disc 0 0 1))),
                        nature_reserve_json (counted 1 (reserve ''Fields'' (Disc 1 0 2)))]),
               (''conservation_area_bin_count'',
                  JArr [conservation_area_json (counted 0 (area ''Centre'' (Disc 5 5 1)))])]),
      [SJoin, SJoin], york_counted) \<and>
   find_bins plane york_counted = find_bins plane york"
  using find_bins_idempotent [OF find_bins_york] find_bins_york by simp

lemma filter_set_cell:
  "filter (\<lambda>kv. fst kv \<noteq> k) (set_cell k v kvs) = filter (\<lambda>kv. fst kv \<noteq> k) kvs"
  by (induction kvs) auto

lemma without_column_with_bin_count:
  "without_column ''bin_count'' (with_bin_count lib bins areas) = without_column ''bin_count'' areas"
  by (simp add: without_column_def with_bin_count_eq comp_def filter_set_cell)

lemma find_bins_keeps:
  "gp_gdf (snd (snd (find_bins lib ds))) = gp_gdf ds \<and>
   pharmacy_gdf (snd (snd (find_bins lib ds))) = pharmacy_gdf ds \<and>
   bins_gdf (snd (snd (find_bins lib ds))) = bins_gdf ds \<and>
   without_column ''bin_count'' (nature_reserves_gdf (snd (snd (find_bins lib ds)))) =
     without_column ''bin_count'' (nature_reserves_gdf ds) \<and>
   without_column ''bin_count'' (conservation_areas_gdf (snd (snd (find_bins lib ds)))) =
     without_column ''bin_count'' (conservation_areas_gdf ds)"
proof (cases "bins_gdf ds = [] \<or> nature_reserves_gdf ds = [] \<or> conservation_areas_gdf ds = []")
  case True
  then show ?thesis by (simp add: find_bins_unavailable)
next
  case False
  then have ne: "bins_gdf ds \<noteq> []" "nature_reserves_gdf ds \<noteq> []" "conservation_areas_gdf ds \<noteq> []"
    by simp_all
  show ?thesis
    by (simp add: find_bins_datasets [OF ne] without_column_with_bin_count)
qed

lemma handle_keeps:
  "gp_gdf (snd (snd (handle lib loads req ds))) = gp_gdf ds \<and>
   pharmacy_gdf (snd (snd (handle lib loads req ds))) = pharmacy_gdf ds \<and>
   bins_gdf (snd (snd (handle lib loads req ds))) = bins_gdf ds \<and>
   without_column ''bin_count'' (nature_reserves_gdf (snd (snd (handle lib loads req ds)))) =
     without_column ''bin_count'' (nature_reserves_gdf ds) \<and>
   without_column ''bin_count'' (conservation_areas_gdf (snd (snd (handle lib loads req ds)))) =
     without_column ''bin_count'' (conservation_areas_gdf ds) \<and>
   (req \<noteq> FindBins \<longrightarrow> snd (snd (handle lib loads req ds)) = ds)"
proof (cases req)
  case (NearestGpPharmacy latitude longitude)
  then show ?thesis by (simp split: prod.splits)
next
  case (GpWithinRadius latitude longitude radius)
  then show ?thesis by (simp split: prod.splits)
next
  case FindBins
  then show ?thesis using find_bins_keeps [of lib ds] by simp
next
  case ServeUploadForm
  then show ?thesis by simp
next
  case (UploadGeojson upload)
  then show ?thesis by (simp split: prod.splits)
next
  case ReadRoot
  then show ?thesis by simp
qed

lemma run_keeps:
  "gp_gdf (run lib loads reqs ds) = gp_gdf ds \<and>
   pharmacy_gdf (run lib loads reqs ds) = pharmacy_gdf ds \<and>
   bins_gdf (run lib loads reqs ds) = bins_gdf ds \<and>
   without_column ''bin_count'' (nature_reserves_gdf (run lib loads reqs ds)) =
     without_column ''bin_count'' (nature_reserves_gdf ds) \<and>
   without_column ''bin_count'' (conservation_areas_gdf (run lib loads reqs ds)) =
     without_column ''bin_count'' (conservation_areas_gdf ds) \<and>
   (FindBins \<notin> set reqs \<longrightarrow> run lib loads reqs ds = ds)"
proof (induction reqs arbitrary: ds)
  case Nil
  show ?case by simp
next
  case (Cons req reqs)
  let ?ds1 = "snd (snd (handle lib loads req ds))"
  note step = handle_keeps [of lib loads req ds]
  note rest = Cons.IH [of ?ds1]
  have run: "run lib loads (req # reqs) ds = run lib loads reqs ?ds1" by simp
  have "gp_gdf (run lib loads reqs ?ds1) = gp_gdf ds" using step rest by simp
  moreover have "pharmacy_gdf (run lib loads reqs ?ds1) = pharmacy_gdf ds" using step rest by simp
  moreover have "bins_gdf (run lib loads reqs ?ds1) = bins_gdf ds" using step rest by simp
  moreover have "without_column ''bin_count'' (nature_reserves_gdf (run lib loads reqs ?ds1)) =
                   without_column ''bin_count'' (nature_reserves_gdf ds)"
    using step rest by simp
  moreover have "without_column ''bin_count'' (conservation_areas_gdf (run lib loads reqs ?ds1)) =
                   without_column ''bin_count'' (conservation_areas_gdf ds)"
    using step rest by simp
  moreover have "FindBins \<notin> set (req # reqs) \<longrightarrow> run lib loads reqs ?ds1 = ds"
  proof
    assume "FindBins \<notin> set (req # reqs)"
    then have "req \<noteq> FindBins" "FindBins \<notin> set reqs" by auto
    then have "?ds1 = ds" "run lib loads reqs ?ds1 = ?ds1" using step rest by simp_all
    then show "run lib loads reqs ?ds1 = ds" by simp
  qed
  ultimately show ?case by (simp only: run)
qed

lemma find_bins_writes:
  assumes "bins_gdf ds \<noteq> []" "nature_reserves_gdf ds \<noteq> []" "conservation_areas_gdf ds \<noteq> []"
  shows "snd (snd (handle lib loads FindBins ds)) =
           ds\<lparr>nature_reserves_gdf :=
                 map (\<lambda>a. a\<lparr>cells := set_cell ''bin_count''
                              (JInt (int (length (filter
                                 (\<lambda>b. lib_within lib (geometry b) (geometry a)) (bins_gdf ds)))))
                              (cells a)\<rparr>)
                     (nature_reserves_gdf ds),
              conservation_areas_gdf :=
                 map (\<lambda>a. a\<lparr>cells := set_cell ''bin_count''
                              (JInt (int (length (filter
                                 (\<lambda>b. lib_within lib (geometry b) (geometry a)) (bins_gdf ds)))))
                              (cells a)\<rparr>)
                     (conservation_areas_gdf ds)\<rparr>"
  by (simp add: find_bins_datasets [OF assms] with_bin_count_eq)

lemma bin_count_in_with_bin_count:
  assumes "r \<in> set (with_bin_count lib bins areas)"
  shows "''bin_count'' \<in> set (map fst (cells r))"
proof -
  from keys_with_bin_count [OF assms]
  show ?thesis
  proof (rule bexE)
    fix a
    assume "set (map fst (cells r)) = insert ''bin_count'' (set (map fst (cells a)))"
    then show ?thesis by (simp only: insertI1)
  qed
qed

lemma find_bins_column_present:
  assumes "bins_gdf ds \<noteq> []" "nature_reserves_gdf ds \<noteq> []" "conservation_areas_gdf ds \<noteq> []"
  shows "\<forall>r\<in>set (nature_reserves_gdf (snd (snd (handle lib loads FindBins ds))) @
                 conservation_areas_gdf (snd (snd (handle lib loads FindBins ds)))).
           ''bin_count'' \<in> set (map fst (cells r))"
proof
  fix r
  assume "r \<in> set (nature_reserves_gdf (snd (snd (handle lib loads FindBins ds))) @
                    conservation_areas_gdf (snd (snd (handle lib loads FindBins ds))))"
  then have "r \<in> set (with_bin_count lib (bins_gdf ds) (nature_reserves_gdf ds)) \<or>
             r \<in> set (with_bin_count lib (bins_gdf ds) (conservation_areas_gdf ds))"
    by (simp add: find_bins_datasets [OF assms])
  then show "''bin_count'' \<in> set (map fst (cells r))"
  proof
    assume "r \<in> set (with_bin_count lib (bins_gdf ds) (nature_reserves_gdf ds))"
    then show ?thesis by (rule bin_count_in_with_bin_count)
  next
    assume "r \<in> set (with_bin_count lib (bins_gdf ds) (conservation_areas_gdf ds))"
    then show ?thesis by (rule bin_count_in_with_bin_count)
  qed
qed

text \<open>
  Claim C1, as amended. After any sequence of requests the GP, pharmacy and bin frames
  are as they were loaded, and the two polygon frames are as they were loaded up to the
  column \<^verbatim>\<open>bin_count\<close>; after a sequence without a request to
  \<^verbatim>\<open>/bins-in-nature-areas\<close> all five frames are as they were loaded. A request to
  \<^verbatim>\<open>/bins-in-nature-areas\<close> with the three datasets nonempty assigns to every row
  of the two polygon frames the column \<^verbatim>\<open>bin_count\<close> with the number of bins within
  that row's polygon, overwriting the column where the row has it and appending it
  where not, and changes nothing else; with one of the three datasets empty it leaves
  the datasets as they are.
\<close>

theorem only_find_bins_writes_bin_count:
  "gp_gdf (run lib loads reqs ds) = gp_gdf ds \<and>
   pharmacy_gdf (run lib loads reqs ds) = pharmacy_gdf ds \<and>
   bins_gdf (run lib loads reqs ds) = bins_gdf ds \<and>
   without_column ''bin_count'' (nature_reserves_gdf (run lib loads reqs ds)) =
     without_column ''bin_count'' (nature_reserves_gdf ds) \<and>
   without_column ''bin_count'' (conservation_areas_gdf (run lib loads reqs ds)) =
     without_column ''bin_count'' (conservation_areas_gdf ds) \<and>
   (FindBins \<notin> set reqs \<longrightarrow> run lib loads reqs ds = ds) \<and>
   (bins_gdf ds \<noteq> [] \<and> nature_reserves_gdf ds \<noteq> [] \<and> conservation_areas_gdf ds \<noteq> [] \<longrightarrow>
      snd (snd (handle lib loads FindBins ds)) =
        ds\<lparr>nature_reserves_gdf :=
              map (\<lambda>a. a\<lparr>cells := set_cell ''bin_count''
                           (JInt (int (length (filter
                              (\<lambda>b. lib_within lib (geometry b) (geometry a)) (bins_gdf ds)))))
                           (cells a)\<rparr>)
                  (nature_reserves_gdf ds),
           conservation_areas_gdf :=
              map (\<lambda>a. a\<lparr>cells := set_cell ''bin_count''
                           (JInt (int (length (filter
                              (\<lambda>b. lib_within lib (geometry b) (geometry a)) (bins_gdf ds)))))
                           (cells a)\<rparr>)
                  (conservation_areas_gdf ds)\<rparr> \<and>
      (\<forall>r\<in>set (nature_reserves_gdf (snd (snd (handle lib loads FindBins ds))) @
                conservation_areas_gdf (snd (snd (handle lib loads FindBins ds)))).
          ''bin_count'' \<in> set (map fst (cells r)))) \<and>
   (bins_gdf ds = [] \<or> nature_reserves_gdf ds = [] \<or> conservation_areas_gdf ds = [] \<longrightarrow>
      snd (snd (handle lib loads FindBins ds)) = ds)"
proof -
  have writes: "bins_gdf ds \<noteq> [] \<and> nature_reserves_gdf ds \<noteq> [] \<and> conservation_areas_gdf ds \<noteq> [] \<longrightarrow>
      snd (snd (handle lib loads FindBins ds)) =
        ds\<lparr>nature_reserves_gdf :=
              map (\<lambda>a. a\<lparr>cells := set_cell ''bin_count''
                           (JInt (int (length (filter
                              (\<lambda>b. lib_within lib (geometry b) (geometry a)) (bins_gdf ds)))))
                           (cells a)\<rparr>)
                  (nature_reserves_gdf ds),
           conservation_areas_gdf :=
              map (\<lambda>a. a\<lparr>cells := set_cell ''bin_count''
                           (JInt (int (length (filter
                              (\<lambda>b. lib_within lib (geometry b) (geometry a)) (bins_gdf ds)))))
                           (cells a)\<rparr>)
                  (conservation_areas_gdf ds)\<rparr> \<and>
      (\<forall>r\<in>set (nature_reserves_gdf (snd (snd (handle lib loads FindBins ds))) @
                conservation_areas_gdf (snd (snd (handle lib loads FindBins ds)))).
          ''bin_count'' \<in> set (map fst (cells r)))"
  proof
    assume "bins_gdf ds \<noteq> [] \<and> nature_reserves_gdf ds \<noteq> [] \<and> conservation_areas_gdf ds \<noteq> []"
    then have ne: "bins_gdf ds \<noteq> []" "nature_reserves_gdf ds \<noteq> []" "conservation_areas_gdf ds \<noteq> []"
      by simp_all
    show "snd (snd (handle lib loads FindBins ds)) =
        ds\<lparr>nature_reserves_gdf :=
              map (\<lambda>a. a\<lparr>cells := set_cell ''bin_count''
                           (JInt (int (length (filter
                              (\<lambda>b. lib_within lib (geometry b) (geometry a)) (bins_gdf ds)))))
                           (cells a)\<rparr>)
                  (nature_reserves_gdf ds),
           conservation_areas_gdf :=
              map (\<lambda>a. a\<lparr>cells := set_cell ''bin_count''
                           (JInt (int (length (filter
                              (\<lambda>b. lib_within lib (geometry b) (geometry a)) (bins_gdf ds)))))
                           (cells a)\<rparr>)
                  (conservation_areas_gdf ds)\<rparr> \<and>
      (\<forall>r\<in>set (nature_reserves_gdf (snd (snd (handle lib loads FindBins ds))) @
                conservation_areas_gdf (snd (snd (handle lib loads FindBins ds)))).
          ''bin_count'' \<in> set (map fst (cells r)))"
      by (rule conjI [OF find_bins_writes [OF ne] find_bins_column_present [OF ne]])
  qed
  have unavailable: "bins_gdf ds = [] \<or> nature_reserves_gdf ds = [] \<or> conservation_areas_gdf ds = [] \<longrightarrow>
      snd (snd (handle lib loads FindBins ds)) = ds"
  proof
    assume "bins_gdf ds = [] \<or> nature_reserves_gdf ds = [] \<or> conservation_areas_gdf ds = []"
    then have "snd (snd (find_bins lib ds)) = ds" by (rule find_bins_unavailable)
    then show "snd (snd (handle lib loads FindBins ds)) = ds" by simp
  qed
  note k = run_keeps [of lib loads reqs ds]
  show ?thesis
    apply (intro conjI)
           apply (rule k [THEN conjunct1])
          apply (rule k [THEN conjunct2, THEN conjunct1])
         apply (rule k [THEN conjunct2, THEN conjunct2, THEN conjunct1])
        apply (rule k [THEN conjunct2, THEN conjunct2, THEN conjunct2, THEN conjunct1])
       apply (rule k [THEN conjunct2, THEN conjunct2, THEN conjunct2, THEN conjunct2, THEN conjunct1])
      apply (rule k [THEN conjunct2, THEN conjunct2, THEN conjunct2, THEN conjunct2, THEN conjunct2])
     apply (rule writes)
    apply (rule unavailable)
    done
qed

lemma york_counted_differs: "york_counted \<noteq> york"
proof
  assume "york_counted = york"
  then have "conservation_areas_gdf york_counted = conservation_areas_gdf york" by simp
  then show False
    by (simp add: york_counted_def york_frames counted_def area_def)
qed

lemma handle_other: "req \<noteq> FindBins \<Longrightarrow> snd (snd (handle lib loads req ds)) = ds"
  using handle_keeps [of lib loads req ds] by blast

lemma handle_bins_york: "snd (snd (handle plane loads_sample FindBins york)) = york_counted"
  by (simp add: find_bins_york)

lemma run_with_bins_york:
  "run plane loads_sample [GpWithinRadius 0 0 1, FindBins, GpWithinRadius 0 0 1] york = york_counted"
proof -
  have other: "snd (snd (handle plane loads_sample (GpWithinRadius 0 0 1) ds)) = ds" for ds
    by (rule handle_other) simp
  show ?thesis by (simp only: run.simps other handle_bins_york)
qed

text \<open>
  On the sample data: a radius request, the request for the bins and a second radius
  request leave the datasets with the column \<^verbatim>\<open>bin_count\<close> on the polygon frames
  and otherwise as loaded, so unlike the datasets as loaded; two requests of other
  endpoints leave them as loaded; the request for the bins alone writes the counts 1, 1
  and 0, so that each of the three polygon rows has the column; and without bins it
  writes nothing.
\<close>

theorem only_find_bins_writes_bin_count_witness:
  "run plane loads_sample [GpWithinRadius 0 0 1, FindBins, GpWithinRadius 0 0 1] york = york_counted \<and>
   york_counted \<noteq> york \<and>
   gp_gdf york_counted = gp_gdf york \<and>
   pharmacy_gdf york_counted = pharmacy_gdf york \<and>
   bins_gdf york_counted = bins_gdf york \<and>
   without_column ''bin_count'' (nature_reserves_gdf york_counted) =
     without_column ''bin_count'' (nature_reserves_gdf york) \<and>
   without_column ''bin_count'' (conservation_areas_gdf york_counted) =
     without_column ''bin_count'' (conservation_areas_gdf york) \<and>
   FindBins \<notin> set [GpWithinRadius 0 0 1, NearestGpPharmacy 0 0] \<and>
   run plane loads_sample [GpWithinRadius 0 0 1, NearestGpPharmacy 0 0] york = york \<and>
   bins_gdf york \<noteq> [] \<and> nature_reserves_gdf york \<noteq> [] \<and> conservation_areas_gdf york \<noteq> [] \<and>
   snd (snd (handle plane loads_sample FindBins york)) = york_counted \<and>
   map (\<lambda>r. ''bin_count'' \<in> set (map fst (cells r)))
       (nature_reserves_gdf york_counted @ conservation_areas_gdf york_counted) =
     [True, True, True] \<and>
   bins_gdf (york\<lparr>bins_gdf := []\<rparr>) = [] \<and>
   snd (snd (handle plane loads_sample FindBins (york\<lparr>bins_gdf := []\<rparr>))) = york\<lparr>bins_gdf := []\<rparr>"
proof -
  note A = only_find_bins_writes_bin_count
    [of plane loads_sample "[GpWithinRadius 0 0 1, FindBins, GpWithinRadius 0 0 1]" york,
     unfolded run_with_bins_york]
  note B = only_find_bins_writes_bin_count
    [of plane loads_sample "[GpWithinRadius 0 0 1, NearestGpPharmacy 0 0]" york]
  note C = only_find_bins_writes_bin_count
    [of plane loads_sample "[]" "york\<lparr>bins_gdf := []\<rparr>"]
  have c1: "run plane loads_sample [GpWithinRadius 0 0 1, FindBins, GpWithinRadius 0 0 1] york =
              york_counted"
    by (rule run_with_bins_york)
  have c2: "york_counted \<noteq> york" by (rule york_counted_differs)
  have c3: "gp_gdf york_counted = gp_gdf york"
    by (rule A [THEN conjunct1])
  have c4: "pharmacy_gdf york_counted = pharmacy_gdf york"
    by (rule A [THEN conjunct2, THEN conjunct1])
  have c5: "bins_gdf york_counted = bins_gdf york"
    by (rule A [THEN conjunct2, THEN conjunct2, THEN conjunct1])
  have c6: "without_column ''bin_count'' (nature_reserves_gdf york_counted) =
              without_column ''bin_count'' (nature_reserves_gdf york)"
    by (rule A [THEN conjunct2, THEN conjunct2, THEN conjunct2, THEN conjunct1])
  have c7: "without_column ''bin_count'' (conservation_areas_gdf york_counted) =
              without_column ''bin_count'' (conservation_areas_gdf york)"
    by (rule A [THEN conjunct2, THEN conjunct2, THEN conjunct2, THEN conjunct2, THEN conjunct1])
  have c8: "FindBins \<notin> set [GpWithinRadius 0 0 1, NearestGpPharmacy 0 0]" by simp
  have c9: "run plane loads_sample [GpWithinRadius 0 0 1, NearestGpPharmacy 0 0] york = york"
    by (rule B [THEN conjunct2, THEN conjunct2, THEN conjunct2, THEN conjunct2, THEN conjunct2,
                   THEN conjunct1, THEN mp, OF c8])
  have c10: "bins_gdf york \<noteq> []" and c11: "nature_reserves_gdf york \<noteq> []"
    and c12: "conservation_areas_gdf york \<noteq> []"
    by (rule york_nonempty)+
  have c13: "snd (snd (handle plane loads_sample FindBins york)) = york_counted"
    by (rule handle_bins_york)
  have "\<forall>r\<in>set (nature_reserves_gdf (snd (snd (handle plane loads_sample FindBins york))) @
                conservation_areas_gdf (snd (snd (handle plane loads_sample FindBins york)))).
          ''bin_count'' \<in> set (map fst (cells r))"
    by (rule B [THEN conjunct2, THEN conjunct2, THEN conjunct2, THEN conjunct2, THEN conjunct2,
                   THEN conjunct2, THEN conjunct1, THEN mp, OF conjI [OF c10 conjI [OF c11 c12]],
                   THEN conjunct2])
  then have present: "\<forall>r\<in>set (nature_reserves_gdf york_counted @ conservation_areas_gdf york_counted).
          ''bin_count'' \<in> set (map fst (cells r))"
    by (simp only: c13)
  have "map (\<lambda>r. ''bin_count'' \<in> set (map fst (cells r)))
            (nature_reserves_gdf york_counted @ conservation_areas_gdf york_counted) =
          map (\<lambda>r. True)
            (nature_reserves_gdf york_counted @ conservation_areas_gdf york_counted)"
    by (rule map_cong [OF refl]) (rule present [THEN bspec, THEN eqTrueI])
  also have "\<dots> = [True, True, True]"
    by (simp add: york_counted_def)
  finally have c14: "map (\<lambda>r. ''bin_count'' \<in> set (map fst (cells r)))
            (nature_reserves_gdf york_counted @ conservation_areas_gdf york_counted) =
          [True, True, True]" .
  have c15: "bins_gdf (york\<lparr>bins_gdf := []\<rparr>) = []" by simp
  have c16: "snd (snd (handle plane loads_sample FindBins (york\<lparr>bins_gdf := []\<rparr>))) =
               york\<lparr>bins_gdf := []\<rparr>"
    by (rule C [THEN conjunct2, THEN conjunct2, THEN conjunct2, THEN conjunct2, THEN conjunct2,
                   THEN conjunct2, THEN conjunct2, THEN mp, OF disjI1 [OF c15]])
  show ?thesis
    by (intro conjI) (fact c1 c2 c3 c4 c5 c6 c7 c8 c9 c10 c11 c12 c13 c14 c15 c16)+
qed

text \<open>
  Claim C1 as stated fails: lines 310 and 316 assign the column \<^verbatim>\<open>bin_count\<close> to
  the module-level polygon frames, so after a request to
  \<^verbatim>\<open>/bins-in-nature-areas\<close> the datasets differ from their state at load time.
\<close>

theorem find_bins_mutates_polygon_frames:
  "snd (snd (handle plane loads_sample FindBins york)) \<noteq> york \<and>
   nature_reserves_gdf (snd (snd (handle plane loads_sample FindBins york))) =
     [counted 1 (reserve ''Moor'' (Disc 0 0 1)), counted 1 (reserve ''Fields'' (Disc 1 0 2))] \<and>
   nature_reserves_gdf york = [reserve ''Moor'' (Disc 0 0 1), reserve ''Fields'' (Disc 1 0 2)]"
proof -
  have "snd (snd (handle plane loads_sample FindBins york)) = york_counted"
    by (simp add: find_bins_york)
  then show ?thesis
    using york_counted_differs by (simp add: york_frames) (simp add: york_counted_def)
qed

section \<open>The upload summary: validation\<close>

text \<open>
  What does hold for an upload within the cap: content that does not parse, and an
  object without the key \<^verbatim>\<open>features\<close>, are answered with 400 and an \<^verbatim>\<open>error\<close>
  key; a document that is a number, a boolean or null is answered with 500; and no
  feature's properties are read unless the membership test of line 420 has succeeded.
\<close>

lemma upload_unparsable_is_400:
  assumes "endswith (filename f) ''.geojson''" "length (content f) \<le> MAX_UPLOAD_SIZE"
    and "loads (content f) = Inl msg"
  shows "upload_geojson loads f = (JSONResponse 400 (error_body msg), [FileRead, JsonLoads])"
  using assms by (simp add: upload_geojson_def)

lemma upload_object_without_features_is_400:
  assumes "endswith (filename f) ''.geojson''" "length (content f) \<le> MAX_UPLOAD_SIZE"
    and "loads (content f) = Inr (JObj kvs)" "''features'' \<notin> set (map fst kvs)"
  shows "upload_geojson loads f =
           (JSONResponse 400 (error_body ''Uploaded file is not a valid GeoJSON file.''),
            [FileRead, JsonLoads])"
  using assms by (simp add: upload_geojson_def)

lemma error_body_has_key: "has_key (error_body msg) ''error''"
  by (simp add: error_body_def)

lemma upload_invalid_has_error_key:
  assumes "endswith (filename f) ''.geojson''" "length (content f) \<le> MAX_UPLOAD_SIZE"
    and "(\<exists>msg. loads (content f) = Inl msg) \<or>
         (\<exists>kvs. loads (content f) = Inr (JObj kvs) \<and> ''features'' \<notin> set (map fst kvs))"
  shows "\<exists>body. fst (upload_geojson loads f) = JSONResponse 400 body \<and> has_key body ''error''"
  using assms
  by (auto simp add: upload_unparsable_is_400 upload_object_without_features_is_400
      error_body_has_key)

lemma upload_scalar_is_500:
  assumes "endswith (filename f) ''.geojson''" "length (content f) \<le> MAX_UPLOAD_SIZE"
    and "loads (content f) = Inr doc"
    and "doc = JNull \<or> (\<exists>b. doc = JBool b) \<or> (\<exists>i. doc = JInt i) \<or> (\<exists>r. doc = JNum r)"
  shows "status_code (fst (upload_geojson loads f)) = 500 \<and>
         snd (upload_geojson loads f) = [FileRead, JsonLoads]"
  using assms by (auto simp add: upload_geojson_def)

lemma upload_reads_properties_after_features_test:
  assumes "ReadProperties \<in> set (snd (upload_geojson loads f))"
  shows "\<exists>doc. loads (content f) = Inr doc \<and> py_contains doc ''features'' = Inr True"
  using assms
  by (auto simp add: upload_geojson_def Let_def split: if_splits sum.splits bool.splits prod.splits)

text \<open>
  Claim C6 fails on the code. A file \<^verbatim>\<open>data.geojson\<close> with the content \<^verbatim>\<open>42\<close>
  is within the cap and parses, to a number, so it has no top-level feature list. The
  membership test of line 420 itself raises \<^verbatim>\<open>TypeError\<close> on a number, which the
  second \<^verbatim>\<open>except\<close> clause turns into a 500, where the claim asks for a 400.
\<close>

theorem upload_of_json_number_is_500:
  "endswith ''data.geojson'' ''.geojson'' \<and> length ''42'' \<le> MAX_UPLOAD_SIZE \<and>
   loads_sample ''42'' = Inr (JInt 42) \<and>
   upload_geojson loads_sample \<lparr>filename = ''data.geojson'', content = ''42''\<rparr> =
     (JSONResponse 500 (error_body ''argument of type 'int' is not iterable''),
      [FileRead, JsonLoads])"
  by (simp add: upload_geojson_def endswith_def MAX_UPLOAD_SIZE_def loads_sample_def)

end
